theory Spec2Isabelle
  imports Complex_Main
begin

unbundle bit_operations_syntax

section \<open>Python values and errors\<close>

text \<open>
  The module \<^verbatim>\<open>mip/model.py\<close> is embedded function by function. Python numbers
  (\<^verbatim>\<open>int\<close> and \<^verbatim>\<open>float\<close>) are modelled as \<^typ>\<open>real\<close>: the expression algebra only
  adds, multiplies and compares them, and rounding is not modelled. Every exception the
  code can raise is a value of \<open>py_error\<close>; a function that can raise returns
  \<open>py_error + 'a\<close> with \<open>Inl\<close> for the exception.
\<close>

datatype py_error =
    AssertionError
  | AttributeError string
  | IndexError
  | KeyError
  | RecursionError
  | SolutionNotAvailable string
  | TypeError
  | ValueError

text \<open>
  The constants of \<^verbatim>\<open>mip/constants.py\<close> that \<^verbatim>\<open>model.py\<close> star-imports; the file
  is not among the sources. The sense strings are the literals that
  \<^verbatim>\<open>LinExpr.__eq__\<close>, \<^verbatim>\<open>__le__\<close> and \<^verbatim>\<open>__ge__\<close> write; the variable kinds are the
  letters of the docstring of \<^verbatim>\<open>Var.type\<close>; the optimization sense is the string of the
  docstring of \<^verbatim>\<open>Model.__init__\<close>. The solver names are the strings the package
  uses; no theorem below depends on their values.
\<close>

definition EQUAL :: string where "EQUAL = ''=''"
definition LESS_OR_EQUAL :: string where "LESS_OR_EQUAL = ''<''"
definition GREATER_OR_EQUAL :: string where "GREATER_OR_EQUAL = ''>''"

definition BINARY :: string where "BINARY = ''B''"
definition CONTINUOUS :: string where "CONTINUOUS = ''C''"
definition INTEGER :: string where "INTEGER = ''I''"

definition MINIMIZE :: string where "MINIMIZE = ''MIN''"
definition GUROBI :: string where "GUROBI = ''GRB''"
definition CBC :: string where "CBC = ''CBC''"

text \<open>
  Modelled from the spec: the tolerance \<^verbatim>\<open>EPS\<close> is defined in \<^verbatim>\<open>mip/constants.py\<close>,
  which is not among the sources; the specification gives it as 1e-8.
\<close>

definition EPS :: real where "EPS = 1 / 10 ^ 8"

text \<open>
  The optimization statuses of \<^verbatim>\<open>mip/constants.py\<close>, one constructor for each name
  \<^verbatim>\<open>model.py\<close> and its docstrings use.
\<close>

datatype status =
    OPTIMAL
  | ERROR
  | INFEASIBLE
  | UNBOUNDED
  | FEASIBLE
  | INT_INFEASIBLE
  | NO_SOLUTION_FOUND
  | LOADED
  | CUTOFF

section \<open>Variable handles and linear expressions\<close>

text \<open>
  A \<^verbatim>\<open>Var\<close> object holds \<^verbatim>\<open>idx\<close> and \<^verbatim>\<open>name\<close>, and a reference to its model,
  which the embedding passes explicitly where a method reads it. The field \<open>oid\<close>
  tells handle objects apart: two handles can agree on \<open>idx\<close> and \<open>name\<close> and still
  be different objects. Two records are the same object (Python's \<^verbatim>\<open>is\<close>) when they
  are equal, \<open>oid\<close> included.
\<close>

record var =
  oid :: nat
  idx :: nat
  name :: string

text \<open>
  \<^verbatim>\<open>LinExpr\<close>: the constant, the dictionary \<^verbatim>\<open>expr\<close> from \<^verbatim>\<open>Var\<close> to coefficient,
  and the sense string. The dictionary is the list of its items in insertion order,
  which is the order in which Python iterates over a \<^verbatim>\<open>dict\<close>.
\<close>

record linexpr =
  const :: real
  expr :: "(var \<times> real) list"
  sense :: string

subsection \<open>Dictionary lookup with \<^verbatim>\<open>Var\<close> keys\<close>

text \<open>
  \<^verbatim>\<open>Var.__hash__\<close> returns \<^verbatim>\<open>self.idx\<close>. An index is a position in the registry of a
  model, far below \<open>2^61 - 1\<close>, where the interpreter takes the returned integer as the
  hash without reducing it.
\<close>

definition Var_hash :: "var \<Rightarrow> int" where
  "Var_hash v = int (idx v)"

text \<open>
  A dictionary lookup of \<open>key\<close> compares it with a stored key \<open>startkey\<close> as follows:
  the same object matches; a different hash does not match; otherwise
  \<^verbatim>\<open>startkey.__eq__(key)\<close> is called and the truth value of its result decides. The
  last step is the parameter \<open>eq\<close>.
\<close>

definition key_match ::
  "(var \<Rightarrow> var \<Rightarrow> py_error + bool) \<Rightarrow> var \<Rightarrow> var \<Rightarrow> py_error + bool" where
  "key_match eq startkey key =
     (if startkey = key then Inr True
      else if Var_hash startkey \<noteq> Var_hash key then Inr False
      else eq startkey key)"

text \<open>The position of the item whose key matches, scanning the stored items.\<close>

fun dict_find ::
  "(var \<Rightarrow> var \<Rightarrow> py_error + bool) \<Rightarrow> (var \<times> real) list \<Rightarrow> var \<Rightarrow> py_error + nat option" where
  "dict_find eq [] key = Inr None"
| "dict_find eq ((k, c) # d) key =
     (case key_match eq k key of
        Inl e \<Rightarrow> Inl e
      | Inr True \<Rightarrow> Inr (Some 0)
      | Inr False \<Rightarrow>
          (case dict_find eq d key of
             Inl e \<Rightarrow> Inl e
           | Inr None \<Rightarrow> Inr None
           | Inr (Some i) \<Rightarrow> Inr (Some (Suc i))))"

text \<open>\<^verbatim>\<open>key in d\<close>, \<^verbatim>\<open>d[key]\<close>, \<^verbatim>\<open>del d[key]\<close> and \<^verbatim>\<open>d[key] = x\<close>.\<close>

definition dict_contains ::
  "(var \<Rightarrow> var \<Rightarrow> py_error + bool) \<Rightarrow> (var \<times> real) list \<Rightarrow> var \<Rightarrow> py_error + bool" where
  "dict_contains eq d key =
     (case dict_find eq d key of Inl e \<Rightarrow> Inl e | Inr r \<Rightarrow> Inr (r \<noteq> None))"

definition dict_get ::
  "(var \<Rightarrow> var \<Rightarrow> py_error + bool) \<Rightarrow> (var \<times> real) list \<Rightarrow> var \<Rightarrow> py_error + real" where
  "dict_get eq d key =
     (case dict_find eq d key of
        Inl e \<Rightarrow> Inl e
      | Inr None \<Rightarrow> Inl KeyError
      | Inr (Some i) \<Rightarrow> Inr (snd (d ! i)))"

definition dict_del ::
  "(var \<Rightarrow> var \<Rightarrow> py_error + bool) \<Rightarrow> (var \<times> real) list \<Rightarrow> var
    \<Rightarrow> py_error + (var \<times> real) list" where
  "dict_del eq d key =
     (case dict_find eq d key of
        Inl e \<Rightarrow> Inl e
      | Inr None \<Rightarrow> Inl KeyError
      | Inr (Some i) \<Rightarrow> Inr (take i d @ drop (Suc i) d))"

text \<open>Assignment keeps the stored key object of an existing item and its position.\<close>

definition dict_set ::
  "(var \<Rightarrow> var \<Rightarrow> py_error + bool) \<Rightarrow> (var \<times> real) list \<Rightarrow> var \<Rightarrow> real
    \<Rightarrow> py_error + (var \<times> real) list" where
  "dict_set eq d key x =
     (case dict_find eq d key of
        Inl e \<Rightarrow> Inl e
      | Inr None \<Rightarrow> Inr (d @ [(key, x)])
      | Inr (Some i) \<Rightarrow> Inr (d[i := (fst (d ! i), x)]))"

subsection \<open>Machine arithmetic\<close>

text \<open>
  The sums and products of coefficients and constants are computed by the interpreter:
  exactly on integers, with rounding on floats. The functions that add or multiply
  coefficients take the arithmetic as the parameter \<open>ar\<close>, so that what is proved of
  them for every \<open>ar\<close> holds of the rounded operations too. \<open>exact\<close> is the arithmetic of
  the real numbers; it agrees with the interpreter wherever no rounding occurs. The
  comparisons with \<^verbatim>\<open>EPS\<close> are comparisons of the computed values.
\<close>

record arith =
  fadd :: "real \<Rightarrow> real \<Rightarrow> real"
  fmul :: "real \<Rightarrow> real \<Rightarrow> real"

definition exact :: arith where
  "exact = \<lparr>fadd = (\<lambda>x y. x + y), fmul = (\<lambda>x y. x * y)\<rparr>"

subsection \<open>\<^verbatim>\<open>LinExpr.add_var\<close> and the constructor\<close>

text \<open>
  \<^verbatim>\<open>add_var\<close> mutates \<^verbatim>\<open>self.expr\<close>; the embedding returns the updated expression.
  \<^verbatim>\<open>self.expr[var] += coeff\<close> reads the item and assigns it.
\<close>

definition add_var_with ::
  "arith \<Rightarrow> (var \<Rightarrow> var \<Rightarrow> py_error + bool) \<Rightarrow> linexpr \<Rightarrow> var \<Rightarrow> real
    \<Rightarrow> py_error + linexpr" where
  "add_var_with ar eq self v coeff =
     (case dict_contains eq (expr self) v of
        Inl e \<Rightarrow> Inl e
      | Inr True \<Rightarrow>
          (case dict_get eq (expr self) v of
             Inl e \<Rightarrow> Inl e
           | Inr c \<Rightarrow>
               if - EPS \<le> fadd ar c coeff \<and> fadd ar c coeff \<le> EPS
               then (case dict_del eq (expr self) v of
                       Inl e \<Rightarrow> Inl e
                     | Inr d \<Rightarrow> Inr (self\<lparr>expr := d\<rparr>))
               else (case dict_set eq (expr self) v (fadd ar c coeff) of
                       Inl e \<Rightarrow> Inl e
                     | Inr d \<Rightarrow> Inr (self\<lparr>expr := d\<rparr>)))
      | Inr False \<Rightarrow>
          (case dict_set eq (expr self) v coeff of
             Inl e \<Rightarrow> Inl e
           | Inr d \<Rightarrow> Inr (self\<lparr>expr := d\<rparr>)))"

text \<open>
  The loop of \<^verbatim>\<open>LinExpr.__init__\<close> over \<^verbatim>\<open>range(len(coeffs))\<close>; it runs after the
  assertion that both lists have the same length.
\<close>

fun init_loop ::
  "arith \<Rightarrow> (var \<Rightarrow> var \<Rightarrow> py_error + bool) \<Rightarrow> linexpr \<Rightarrow> var list \<Rightarrow> real list
    \<Rightarrow> py_error + linexpr" where
  "init_loop ar eq self (v # vs) (c # cs) =
     (if c = 0 then init_loop ar eq self vs cs
      else (case add_var_with ar eq self v c of
              Inl e \<Rightarrow> Inl e
            | Inr self' \<Rightarrow> init_loop ar eq self' vs cs))"
| "init_loop ar eq self vs cs = Inr self"

text \<open>
  \<^verbatim>\<open>LinExpr.__init__\<close>. The default \<^verbatim>\<open>None\<close> of \<^verbatim>\<open>variables\<close> and \<^verbatim>\<open>coeffs\<close> is the
  empty list here: \<^verbatim>\<open>if variables:\<close> is false for both.
\<close>

definition LinExpr_init_with ::
  "arith \<Rightarrow> (var \<Rightarrow> var \<Rightarrow> py_error + bool) \<Rightarrow> var list \<Rightarrow> real list \<Rightarrow> real \<Rightarrow> string
    \<Rightarrow> py_error + linexpr" where
  "LinExpr_init_with ar eq variables coeffs c s =
     (let self = \<lparr>const = c, expr = [], sense = s\<rparr> in
      if variables \<noteq> [] then
        (if length variables \<noteq> length coeffs then Inl AssertionError
         else init_loop ar eq self variables coeffs)
      else Inr self)"

text \<open>
  \<^verbatim>\<open>Var.__eq__\<close> applied to another \<^verbatim>\<open>Var\<close> does not compare: it builds the
  constraint \<^verbatim>\<open>LinExpr([self, other], [1, -1], sense="=")\<close>. A \<^verbatim>\<open>LinExpr\<close> object
  defines neither \<^verbatim>\<open>__bool__\<close> nor \<^verbatim>\<open>__len__\<close>, so its truth value is \<^verbatim>\<open>True\<close>.
  When a dictionary lookup calls it, the constructor looks \<^verbatim>\<open>other\<close> up in a
  dictionary that holds \<^verbatim>\<open>self\<close>, which can call \<^verbatim>\<open>__eq__\<close> again. The argument \<open>n\<close>
  is the number of nested calls the interpreter still allows; at 0 it raises
  \<^verbatim>\<open>RecursionError\<close>.
\<close>

primrec Var_eq_truth :: "arith \<Rightarrow> nat \<Rightarrow> var \<Rightarrow> var \<Rightarrow> py_error + bool" where
  "Var_eq_truth ar 0 self other = Inl RecursionError"
| "Var_eq_truth ar (Suc n) self other =
     (case LinExpr_init_with ar (Var_eq_truth ar n) [self, other] [1, - 1] 0 ''='' of
        Inl e \<Rightarrow> Inl e
      | Inr r \<Rightarrow> Inr True)"

text \<open>The interpreter's default limit, \<^verbatim>\<open>sys.getrecursionlimit()\<close>.\<close>

definition recursion_limit :: nat where "recursion_limit = 1000"

text \<open>
  \<^verbatim>\<open>add_var\<close> and the constructor in the arithmetic \<open>ar\<close>, and in the exact
  arithmetic.
\<close>

definition add_var_in :: "arith \<Rightarrow> linexpr \<Rightarrow> var \<Rightarrow> real \<Rightarrow> py_error + linexpr" where
  "add_var_in ar = add_var_with ar (Var_eq_truth ar recursion_limit)"

definition LinExpr_init_in ::
  "arith \<Rightarrow> var list \<Rightarrow> real list \<Rightarrow> real \<Rightarrow> string \<Rightarrow> py_error + linexpr" where
  "LinExpr_init_in ar = LinExpr_init_with ar (Var_eq_truth ar recursion_limit)"

definition add_var :: "linexpr \<Rightarrow> var \<Rightarrow> real \<Rightarrow> py_error + linexpr" where
  "add_var = add_var_in exact"

definition LinExpr_init :: "var list \<Rightarrow> real list \<Rightarrow> real \<Rightarrow> string \<Rightarrow> py_error + linexpr" where
  "LinExpr_init = LinExpr_init_in exact"

subsection \<open>The expression algebra\<close>

text \<open>
  The right operand of an operator is a \<^verbatim>\<open>Var\<close>, a \<^verbatim>\<open>LinExpr\<close>, a number, or
  some other object, which the \<^verbatim>\<open>isinstance\<close> chains tell apart.
\<close>

datatype operand = OVar var | OExpr linexpr | ONum real | OOther

text \<open>\<^verbatim>\<open>LinExpr.copy\<close>: a new object with the same constant, items and sense.\<close>

definition LinExpr_copy :: "linexpr \<Rightarrow> linexpr" where
  "LinExpr_copy self = \<lparr>const = const self, expr = expr self, sense = sense self\<rparr>"

definition add_const_in :: "arith \<Rightarrow> linexpr \<Rightarrow> real \<Rightarrow> linexpr" where
  "add_const_in ar self c = self\<lparr>const := fadd ar (const self) c\<rparr>"

text \<open>
  \<^verbatim>\<open>LinExpr.add_expr\<close>: the loop over \<^verbatim>\<open>expr.expr.items()\<close>, then the method. The
  operand \<open>e\<close> is an expression other than \<open>self\<close>, as it is in \<^verbatim>\<open>__add__\<close> and
  \<^verbatim>\<open>__sub__\<close>, which call it on a fresh copy.
\<close>

fun add_expr_loop ::
  "arith \<Rightarrow> linexpr \<Rightarrow> (var \<times> real) list \<Rightarrow> real \<Rightarrow> py_error + linexpr" where
  "add_expr_loop ar self [] coeff = Inr self"
| "add_expr_loop ar self ((v, coeff_var) # items) coeff =
     (case add_var_in ar self v (fmul ar coeff_var coeff) of
        Inl e \<Rightarrow> Inl e
      | Inr self' \<Rightarrow> add_expr_loop ar self' items coeff)"

definition add_expr_in :: "arith \<Rightarrow> linexpr \<Rightarrow> linexpr \<Rightarrow> real \<Rightarrow> py_error + linexpr" where
  "add_expr_in ar self e coeff =
     add_expr_loop ar (self\<lparr>const := fadd ar (const self) (fmul ar (const e) coeff)\<rparr>)
       (expr e) coeff"

text \<open>\<^verbatim>\<open>LinExpr.__add__\<close> and \<^verbatim>\<open>LinExpr.__sub__\<close>: the operand \<open>self\<close> is not touched.\<close>

definition LinExpr_add_in :: "arith \<Rightarrow> linexpr \<Rightarrow> operand \<Rightarrow> py_error + linexpr" where
  "LinExpr_add_in ar self other =
     (let result = LinExpr_copy self in
      case other of
        OVar v \<Rightarrow> add_var_in ar result v 1
      | OExpr e \<Rightarrow> add_expr_in ar result e 1
      | ONum c \<Rightarrow> Inr (add_const_in ar result c)
      | OOther \<Rightarrow> Inr result)"

definition LinExpr_sub_in :: "arith \<Rightarrow> linexpr \<Rightarrow> operand \<Rightarrow> py_error + linexpr" where
  "LinExpr_sub_in ar self other =
     (let result = LinExpr_copy self in
      case other of
        OVar v \<Rightarrow> add_var_in ar result v (- 1)
      | OExpr e \<Rightarrow> add_expr_in ar result e (- 1)
      | ONum c \<Rightarrow> Inr (add_const_in ar result (- c))
      | OOther \<Rightarrow> Inr result)"

text \<open>The same methods in the exact arithmetic.\<close>

definition add_const :: "linexpr \<Rightarrow> real \<Rightarrow> linexpr" where
  "add_const = add_const_in exact"

definition add_expr :: "linexpr \<Rightarrow> linexpr \<Rightarrow> real \<Rightarrow> py_error + linexpr" where
  "add_expr = add_expr_in exact"

definition LinExpr_add :: "linexpr \<Rightarrow> operand \<Rightarrow> py_error + linexpr" where
  "LinExpr_add = LinExpr_add_in exact"

definition LinExpr_sub :: "linexpr \<Rightarrow> operand \<Rightarrow> py_error + linexpr" where
  "LinExpr_sub = LinExpr_sub_in exact"

text \<open>
  \<^verbatim>\<open>LinExpr.__mul__\<close>. The two sense tests read and assign \<^verbatim>\<open>self.sense\<close>, one after
  the other, so the function returns the operand as the call leaves it together with
  the result. In the loop \<^verbatim>\<open>result.expr[var] *= other\<close> every key is a stored key and
  is found by identity.
\<close>

definition LinExpr_mul :: "linexpr \<Rightarrow> operand \<Rightarrow> py_error + linexpr \<times> linexpr" where
  "LinExpr_mul self other =
     (case other of
        ONum k \<Rightarrow>
          (let result = LinExpr_copy self;
               result = result\<lparr>const := const result * k\<rparr>;
               result = result\<lparr>expr := map (\<lambda>(v, c). (v, c * k)) (expr result)\<rparr>;
               self = (if sense self = GREATER_OR_EQUAL \<and> k \<le> - (1 / 10 ^ 8)
                       then self\<lparr>sense := LESS_OR_EQUAL\<rparr> else self);
               self = (if sense self = LESS_OR_EQUAL \<and> k \<le> - (1 / 10 ^ 8)
                       then self\<lparr>sense := GREATER_OR_EQUAL\<rparr> else self)
           in Inr (self, result))
      | _ \<Rightarrow> Inl AssertionError)"

text \<open>\<^verbatim>\<open>LinExpr.__neg__\<close>.\<close>

definition LinExpr_neg :: "linexpr \<Rightarrow> py_error + linexpr \<times> linexpr" where
  "LinExpr_neg self = LinExpr_mul self (ONum (- 1))"

subsection \<open>\<^verbatim>\<open>LinExpr.equals\<close> and \<^verbatim>\<open>LinExpr.__hash__\<close>\<close>

text \<open>
  The loop of \<^verbatim>\<open>equals\<close> over \<^verbatim>\<open>self.expr.items()\<close>. As in the source, the membership
  test and the coefficient \<^verbatim>\<open>oc\<close> both read \<^verbatim>\<open>self.expr\<close>; \<open>other\<close> is not read.
\<close>

fun equals_loop :: "linexpr \<Rightarrow> linexpr \<Rightarrow> (var \<times> real) list \<Rightarrow> py_error + bool" where
  "equals_loop self other [] = Inr True"
| "equals_loop self other ((v, c) # items) =
     (case dict_contains (Var_eq_truth exact recursion_limit) (expr self) v of
        Inl e \<Rightarrow> Inl e
      | Inr False \<Rightarrow> Inr False
      | Inr True \<Rightarrow>
          (case dict_get (Var_eq_truth exact recursion_limit) (expr self) v of
             Inl e \<Rightarrow> Inl e
           | Inr oc \<Rightarrow>
               if \<bar>c - oc\<bar> > 1 / 10 ^ 12 then Inr False
               else equals_loop self other items))"

definition equals :: "linexpr \<Rightarrow> linexpr \<Rightarrow> py_error + bool" where
  "equals self other =
     (if const self \<noteq> const other then Inr False
      else if sense self \<noteq> sense other then Inr False
      else if length (expr self) \<noteq> length (expr other) then Inr False
      else equals_loop self other (expr self))"

text \<open>
  \<^verbatim>\<open>__hash__\<close> collects the indices of the keys, then the coefficients, then the
  constant and the sense, and returns \<^verbatim>\<open>hash(tuple(hashEl))\<close>. An index and a
  coefficient are both numbers to \<^verbatim>\<open>hash\<close> (\<^verbatim>\<open>hash(1) == hash(1.0)\<close>). The builtin
  \<^verbatim>\<open>hash\<close> on tuples belongs to the interpreter and is the parameter \<open>H\<close>.
\<close>

datatype hash_el = HNum real | HStr string

definition hashEl :: "linexpr \<Rightarrow> hash_el list" where
  "hashEl self =
     map (\<lambda>(v, c). HNum (real (idx v))) (expr self)
     @ map (\<lambda>(v, c). HNum c) (expr self)
     @ [HNum (const self), HStr (sense self)]"

definition LinExpr_hash :: "(hash_el list \<Rightarrow> int) \<Rightarrow> linexpr \<Rightarrow> int" where
  "LinExpr_hash H self = H (hashEl self)"

section \<open>The cut pool\<close>

text \<open>
  \<^verbatim>\<open>CutPool\<close>: the list \<^verbatim>\<open>__cuts\<close> and the \<^verbatim>\<open>defaultdict(list)\<close> \<^verbatim>\<open>__pos\<close> from hash
  codes to positions. Reading a missing key of a \<^verbatim>\<open>defaultdict\<close> stores the empty
  list under it.
\<close>

record cutpool =
  pool_cuts :: "linexpr list"
  pool_pos :: "int \<rightharpoonup> nat list"

definition CutPool_init :: cutpool where
  "CutPool_init = \<lparr>pool_cuts = [], pool_pos = Map.empty\<rparr>"

definition defaultdict_get :: "(int \<rightharpoonup> nat list) \<Rightarrow> int \<Rightarrow> (int \<rightharpoonup> nat list) \<times> nat list" where
  "defaultdict_get d k = (case d k of None \<Rightarrow> (d(k \<mapsto> []), []) | Some l \<Rightarrow> (d, l))"

text \<open>
  The loop \<^verbatim>\<open>for p in l\<close> of \<^verbatim>\<open>CutPool.add\<close>: \<open>Inr True\<close> when a stored cut equals the
  new one. \<^verbatim>\<open>self.__cuts[p]\<close> raises \<^verbatim>\<open>IndexError\<close> out of range.
\<close>

fun find_repeated :: "linexpr list \<Rightarrow> linexpr \<Rightarrow> nat list \<Rightarrow> py_error + bool" where
  "find_repeated cs a_cut [] = Inr False"
| "find_repeated cs a_cut (p # l) =
     (if p \<ge> length cs then Inl IndexError
      else (case equals (cs ! p) a_cut of
              Inl e \<Rightarrow> Inl e
            | Inr True \<Rightarrow> Inr True
            | Inr False \<Rightarrow> find_repeated cs a_cut l))"

text \<open>\<^verbatim>\<open>CutPool.add\<close> returns its boolean and the pool as the call leaves it.\<close>

definition CutPool_add ::
  "(hash_el list \<Rightarrow> int) \<Rightarrow> cutpool \<Rightarrow> linexpr \<Rightarrow> py_error + bool \<times> cutpool" where
  "CutPool_add H self a_cut =
     (let hcode = LinExpr_hash H a_cut;
          (pos, l) = defaultdict_get (pool_pos self) hcode
      in case find_repeated (pool_cuts self) a_cut l of
           Inl e \<Rightarrow> Inl e
         | Inr True \<Rightarrow> Inr (False, self\<lparr>pool_pos := pos\<rparr>)
         | Inr False \<Rightarrow>
             Inr (True, \<lparr>pool_cuts = pool_cuts self @ [a_cut],
                        pool_pos = pos(hcode \<mapsto> l @ [length (pool_cuts self)])\<rparr>))"

subsection \<open>The interpreter's hash of a tuple\<close>

text \<open>
  For a concrete \<open>H\<close>: the hash of a tuple in CPython 3.8 and later on a 64-bit
  platform (\<^verbatim>\<open>tuplehash\<close> in \<^verbatim>\<open>Objects/tupleobject.c\<close>), computed from the hashes of
  the items, on unsigned 64-bit integers. The hash of an integer, and of a float with an
  integral value, is the value modulo \<open>2^61 - 1\<close> with its sign, and never \<open>-1\<close>. The
  hash of the empty string is 0; the hash of any other string depends on the seed of the
  process and is the parameter \<open>sh\<close>, and \<open>fh\<close> is the hash of a float that is not
  integral.
\<close>

definition long_hash :: "int \<Rightarrow> int" where
  "long_hash n = (let h = sgn n * (\<bar>n\<bar> mod (2 ^ 61 - 1)) in if h = - 1 then - 2 else h)"

definition item_hash :: "(real \<Rightarrow> int) \<Rightarrow> (string \<Rightarrow> int) \<Rightarrow> hash_el \<Rightarrow> int" where
  "item_hash fh sh el =
     (case el of
        HNum x \<Rightarrow> if x = of_int \<lfloor>x\<rfloor> then long_hash \<lfloor>x\<rfloor> else fh x
      | HStr s \<Rightarrow> if s = [] then 0 else sh s)"

definition XXPRIME_1 :: int where "XXPRIME_1 = 11400714785074694791"
definition XXPRIME_2 :: int where "XXPRIME_2 = 14029467366897019727"
definition XXPRIME_5 :: int where "XXPRIME_5 = 2870177450012600261"

definition XXROTATE :: "int \<Rightarrow> int" where
  "XXROTATE x = (x * 2 ^ 31) mod 2 ^ 64 + x div 2 ^ 33"

fun tuplehash_loop :: "int \<Rightarrow> int list \<Rightarrow> int" where
  "tuplehash_loop acc [] = acc"
| "tuplehash_loop acc (lane # lanes) =
     tuplehash_loop
       ((XXROTATE ((acc + (lane mod 2 ^ 64) * XXPRIME_2) mod 2 ^ 64) * XXPRIME_1) mod 2 ^ 64)
       lanes"

definition tuplehash :: "int list \<Rightarrow> int" where
  "tuplehash lanes =
     (let acc = (tuplehash_loop XXPRIME_5 lanes
                 + (int (length lanes) XOR (XXPRIME_5 XOR 3527539))) mod 2 ^ 64
      in if acc = 2 ^ 64 - 1 then 1546275796
         else if acc \<ge> 2 ^ 63 then acc - 2 ^ 64 else acc)"

definition cpython_hash :: "(real \<Rightarrow> int) \<Rightarrow> (string \<Rightarrow> int) \<Rightarrow> hash_el list \<Rightarrow> int" where
  "cpython_hash fh sh els = tuplehash (map (item_hash fh sh) els)"

section \<open>The solver backend\<close>

text \<open>
  Modelled from the spec: the backends \<^verbatim>\<open>mip/cbc.py\<close> and \<^verbatim>\<open>mip/gurobi.py\<close> are not
  among the sources, and the class \<^verbatim>\<open>Solver\<close> of \<^verbatim>\<open>model.py\<close> only declares their
  methods. The backend is the store the capability contract (section 4.3 of the
  specification) describes: per-variable and per-constraint state keyed by index, the
  objective constant and sense, the solution data, and the status that the next search
  reports. What the engine answers to a query of a solution value, a pool value or a
  reduced cost is its own, a value or an error. A bound is a float, which can be infinite
  (\<^verbatim>\<open>INF\<close>).
\<close>

datatype bound = NegInf | Finite real | PosInf

record solver =
  sv_num_cols :: nat
  sv_col_name :: "nat \<Rightarrow> string"
  sv_lb :: "nat \<Rightarrow> bound"
  sv_ub :: "nat \<Rightarrow> bound"
  sv_obj :: "nat \<Rightarrow> real"
  sv_type :: "nat \<Rightarrow> string"
  sv_num_rows :: nat
  sv_row_expr :: "nat \<Rightarrow> linexpr"
  sv_row_name :: "nat \<Rightarrow> string"
  sv_objective_const :: real
  sv_objective_sense :: string
  sv_x :: "nat \<Rightarrow> py_error + real"
  sv_xi :: "nat \<Rightarrow> int \<Rightarrow> py_error + real"
  sv_rc :: "nat \<Rightarrow> py_error + real"
  sv_outcome :: status

definition Solver_init :: "string \<Rightarrow> string \<Rightarrow> solver" where
  "Solver_init nm sns =
     \<lparr>sv_num_cols = 0, sv_col_name = (\<lambda>i. []), sv_lb = (\<lambda>i. Finite 0),
      sv_ub = (\<lambda>i. PosInf), sv_obj = (\<lambda>i. 0), sv_type = (\<lambda>i. CONTINUOUS),
      sv_num_rows = 0, sv_row_expr = (\<lambda>i. \<lparr>const = 0, expr = [], sense = []\<rparr>),
      sv_row_name = (\<lambda>i. []), sv_objective_const = 0, sv_objective_sense = sns,
      sv_x = (\<lambda>i. Inr 0), sv_xi = (\<lambda>i j. Inr 0), sv_rc = (\<lambda>i. Inr 0),
      sv_outcome = OPTIMAL\<rparr>"

text \<open>Adding a variable or a constraint returns the new index with the backend.\<close>

definition solver_add_var ::
  "solver \<Rightarrow> real \<Rightarrow> bound \<Rightarrow> bound \<Rightarrow> string \<Rightarrow> string \<Rightarrow> nat \<times> solver" where
  "solver_add_var s ob lb ub var_type nm =
     (let i = sv_num_cols s in
      (i, s\<lparr>sv_num_cols := Suc i, sv_col_name := (sv_col_name s)(i := nm),
             sv_lb := (sv_lb s)(i := lb), sv_ub := (sv_ub s)(i := ub),
             sv_obj := (sv_obj s)(i := ob), sv_type := (sv_type s)(i := var_type)\<rparr>))"

definition solver_add_constr :: "solver \<Rightarrow> linexpr \<Rightarrow> string \<Rightarrow> nat \<times> solver" where
  "solver_add_constr s lin_expr nm =
     (let i = sv_num_rows s in
      (i, s\<lparr>sv_num_rows := Suc i, sv_row_expr := (sv_row_expr s)(i := lin_expr),
             sv_row_name := (sv_row_name s)(i := nm)\<rparr>))"

section \<open>The model\<close>

text \<open>A \<^verbatim>\<open>Constr\<close> object: its index and name (the model reference is passed explicitly).\<close>

record constr =
  constr_idx :: nat
  constr_name :: string

text \<open>
  The fields of a \<^verbatim>\<open>Model\<close> object; the private ones (\<^verbatim>\<open>__mipStart\<close>, \<^verbatim>\<open>__threads\<close>,
  \<^verbatim>\<open>__status\<close>, \<^verbatim>\<open>__cuts\<close>) without their underscores. The callback object
  \<^verbatim>\<open>__cuts_generator\<close> is not modelled.
\<close>

record model =
  model_name :: string
  solver_name :: string
  solver :: solver
  mipStart :: "(var \<times> real) list"
  constrs :: "constr list"
  constrs_by_name :: "string \<rightharpoonup> constr"
  vars :: "var list"
  vars_by_name :: "string \<rightharpoonup> var"
  threads :: int
  status :: status
  cuts :: int

text \<open>\<^verbatim>\<open>str.upper\<close> on ASCII letters, and the decimal digits of \<^verbatim>\<open>str.format\<close>.\<close>

definition upper_char :: "char \<Rightarrow> char" where
  "upper_char c =
     (let n = (of_char c :: nat) in if 97 \<le> n \<and> n \<le> 122 then char_of (n - 32) else c)"

definition upper :: "string \<Rightarrow> string" where
  "upper s = map upper_char s"

fun digits10 :: "nat \<Rightarrow> string" where
  "digits10 n =
     (if n < 10 then [''0123456789'' ! n]
      else digits10 (n div 10) @ [''0123456789'' ! (n mod 10)])"

definition str_int :: "int \<Rightarrow> string" where
  "str_int i = (if i < 0 then CHR ''-'' # digits10 (nat (- i)) else digits10 (nat i))"

text \<open>\<^verbatim>\<open>"C{:011d}".format(nc)\<close>: the digits, padded with zeros to eleven places.\<close>

definition default_var_name :: "nat \<Rightarrow> string" where
  "default_var_name nc =
     CHR ''C'' # replicate (11 - length (digits10 nc)) CHR ''0'' @ digits10 nc"

text \<open>
  \<^verbatim>\<open>len(name.strip()) == 0\<close>: every character of the name is white space. The
  characters of the embedding are bytes, and the white space is that of ASCII.
\<close>

definition is_blank :: "string \<Rightarrow> bool" where
  "is_blank s = list_all (\<lambda>c. (of_char c :: nat) \<in> {9, 10, 11, 12, 13, 28, 29, 30, 31, 32}) s"

text \<open>
  \<^verbatim>\<open>Model.__init__\<close>. The process environment and the availability of the Gurobi
  library are parameters; whichever backend class is chosen, the backend is the store
  above. The assignment \<^verbatim>\<open>self.sense = sense\<close> goes through the property setter to
  \<^verbatim>\<open>set_objective_sense\<close>.
\<close>

definition Model_init ::
  "(string \<rightharpoonup> string) \<Rightarrow> bool \<Rightarrow> string \<Rightarrow> string \<Rightarrow> string \<Rightarrow> model" where
  "Model_init environ has_gurobi nm sns solver_name_arg =
     (let self_solver_name = solver_name_arg;
          sn = (case environ ''solver_name'' of Some v \<Rightarrow> v | None \<Rightarrow> solver_name_arg);
          sn = (case environ (upper ''solver_name'') of Some v \<Rightarrow> v | None \<Rightarrow> sn);
          self_solver_name =
            (if upper sn = GUROBI then self_solver_name
             else if upper sn = CBC then self_solver_name
             else if has_gurobi then GUROBI else CBC);
          slv = Solver_init nm sns
      in \<lparr>model_name = nm, solver_name = self_solver_name,
          solver = slv\<lparr>sv_objective_sense := sns\<rparr>,
          mipStart = [], constrs = [], constrs_by_name = Map.empty,
          vars = [], vars_by_name = Map.empty,
          threads = 0, status = LOADED, cuts = 1\<rparr>)"

text \<open>
  \<^verbatim>\<open>Model.add_var\<close> without its \<^verbatim>\<open>column\<close> argument (\<^verbatim>\<open>None\<close> by default). \<open>new_oid\<close>
  is the identity of the \<^verbatim>\<open>Var\<close> object that the call allocates.
\<close>

definition Model_add_var ::
  "model \<Rightarrow> nat \<Rightarrow> string \<Rightarrow> bound \<Rightarrow> bound \<Rightarrow> real \<Rightarrow> string \<Rightarrow> var \<times> model" where
  "Model_add_var self new_oid nm lb ub ob var_type =
     (let lb = (if var_type = BINARY then Finite 0 else lb);
          ub = (if var_type = BINARY then Finite 1 else ub);
          nm = (if is_blank nm then default_var_name (sv_num_cols (solver self)) else nm);
          (i, slv) = solver_add_var (solver self) ob lb ub var_type nm;
          v = \<lparr>oid = new_oid, idx = i, name = nm\<rparr>
      in (v, self\<lparr>solver := slv, vars := vars self @ [v],
                  vars_by_name := (vars_by_name self)(nm \<mapsto> v)\<rparr>))"

text \<open>
  \<^verbatim>\<open>Model.add_constr\<close> receives a \<^verbatim>\<open>bool\<close> or a \<^verbatim>\<open>LinExpr\<close>. What the backend does with
  an expression is not in \<^verbatim>\<open>model.py\<close>: its \<^verbatim>\<open>add_constr\<close> is the parameter
  \<open>backend_add_constr\<close>, which raises or returns the index of the new row with the
  backend. An error of the backend leaves \<^verbatim>\<open>add_constr\<close> before the registry is touched.
  The function returns \<^verbatim>\<open>None\<close> or the new \<^verbatim>\<open>Constr\<close>, and the model as the call leaves it.
\<close>

datatype constr_arg = ArgBool bool | ArgExpr linexpr

definition Model_add_constr ::
  "(solver \<Rightarrow> linexpr \<Rightarrow> string \<Rightarrow> py_error + nat \<times> solver) \<Rightarrow> model \<Rightarrow> constr_arg \<Rightarrow> string
    \<Rightarrow> py_error + constr option \<times> model" where
  "Model_add_constr backend_add_constr self lin_expr nm =
     (case lin_expr of
        ArgBool b \<Rightarrow> Inr (None, self)
      | ArgExpr e \<Rightarrow>
          (case backend_add_constr (solver self) e nm of
             Inl err \<Rightarrow> Inl err
           | Inr (i, slv) \<Rightarrow>
               (let c = \<lparr>constr_idx = i, constr_name = nm\<rparr>
                in Inr (Some c, self\<lparr>solver := slv, constrs := constrs self @ [c],
                                     constrs_by_name := (constrs_by_name self)(nm \<mapsto> c)\<rparr>))))"

text \<open>
  Modelled from the spec: a backend that accepts the expression and stores it as a new
  row (section 4.3: add constraint from a LinExpr and a name, returns index).
\<close>

definition store_add_constr :: "solver \<Rightarrow> linexpr \<Rightarrow> string \<Rightarrow> py_error + nat \<times> solver" where
  "store_add_constr s lin_expr nm = Inr (solver_add_constr s lin_expr nm)"

text \<open>
  The setter of \<^verbatim>\<open>Model.cuts\<close> returns the lines it prints and the model. The message
  is formatted with the stored value \<^verbatim>\<open>self.__cuts\<close>.
\<close>

definition Model_set_cuts :: "model \<Rightarrow> int \<Rightarrow> string list \<times> model" where
  "Model_set_cuts self v =
     (let out = (if v < 0 \<or> v > 3
                 then [''Warning: invalid value ('' @ str_int (cuts self)
                       @ '') for parameter cuts, keeping old setting.'']
                 else [])
      in (out, self\<lparr>cuts := v\<rparr>))"

text \<open>
  \<^verbatim>\<open>Model.optimize\<close> records the status the backend returns. The thread count and the
  processing limits it pushes first are configuration of the engine and are not
  modelled.
\<close>

definition Model_optimize :: "model \<Rightarrow> status \<times> model" where
  "Model_optimize self = (sv_outcome (solver self), self\<lparr>status := sv_outcome (solver self)\<rparr>)"

subsection \<open>Solution queries of \<^verbatim>\<open>Var\<close>\<close>

text \<open>The first argument is the model the handle refers to (\<^verbatim>\<open>self.model\<close>).\<close>

definition Var_rc :: "model \<Rightarrow> var \<Rightarrow> py_error + real" where
  "Var_rc m self =
     (if status m \<noteq> OPTIMAL then Inl (SolutionNotAvailable ''Solution not available.'')
      else sv_rc (solver m) (idx self))"

definition Var_x :: "model \<Rightarrow> var \<Rightarrow> py_error + real" where
  "Var_x m self =
     (if status m = LOADED
      then Inl (SolutionNotAvailable ''Model was not optimized, solution not available.'')
      else if status m = INFEASIBLE \<or> status m = CUTOFF
      then Inl (SolutionNotAvailable ''Infeasible model, solution not available.'')
      else if status m = UNBOUNDED
      then Inl (SolutionNotAvailable ''Unbounded model, solution not available.'')
      else if status m = NO_SOLUTION_FOUND
      then Inl (SolutionNotAvailable ''Solution not found during optimization.'')
      else sv_x (solver m) (idx self))"

definition Var_xi :: "model \<Rightarrow> var \<Rightarrow> int \<Rightarrow> py_error + real" where
  "Var_xi m self i =
     (if status m = LOADED
      then Inl (SolutionNotAvailable ''Model was not optimized, solution not available.'')
      else if status m = INFEASIBLE \<or> status m = CUTOFF
      then Inl (SolutionNotAvailable ''Infeasible model, solution not available.'')
      else if status m = UNBOUNDED
      then Inl (SolutionNotAvailable ''Unbounded model, solution not available.'')
      else if status m = NO_SOLUTION_FOUND
      then Inl (SolutionNotAvailable ''Solution not found during optimization.'')
      else sv_xi (solver m) (idx self) i)"

subsection \<open>\<^verbatim>\<open>Model.copy\<close>\<close>

text \<open>
  Reading an attribute that neither the object nor its class defines raises
  \<^verbatim>\<open>AttributeError\<close>. The lists hold the names that \<^verbatim>\<open>Var\<close> and \<^verbatim>\<open>Model\<close> objects
  define: the fields set in \<^verbatim>\<open>__init__\<close> (private names as the class mangles them) and
  the methods and properties of the class body. Neither class defines
  \<^verbatim>\<open>__getattr__\<close>, and the names \<^verbatim>\<open>object\<close> provides all begin and end with two
  underscores.
\<close>

definition Var_attributes :: "string list" where
  "Var_attributes =
     [''model'', ''idx'', ''name'',
      ''__init__'', ''__hash__'', ''__add__'', ''__radd__'', ''__sub__'', ''__rsub__'',
      ''__mul__'', ''__rmul__'', ''__truediv__'', ''__neg__'', ''__eq__'', ''__le__'',
      ''__ge__'', ''__str__'',
      ''lb'', ''ub'', ''obj'', ''type'', ''column'', ''rc'', ''x'', ''xi'']"

definition Model_attributes :: "string list" where
  "Model_attributes =
     [''name'', ''solver_name'', ''solver'', ''_Model__mipStart'', ''constrs'',
      ''constrs_by_name'', ''vars'', ''vars_by_name'', ''_Model__cuts_generator'',
      ''_Model__threads'', ''_Model__status'', ''_Model__cuts'',
      ''__init__'', ''__del__'', ''__iadd__'', ''add_var'', ''add_constr'', ''copy'',
      ''get_constr_by_name'', ''objective_bound'', ''objective'', ''verbose'', ''threads'',
      ''sense'', ''objective_const'', ''objective_value'', ''num_solutions'',
      ''objective_values'', ''get_var_by_name'', ''relax'', ''cuts_generator'', ''emphasis'',
      ''cuts'', ''optimize'', ''read'', ''start'', ''write'', ''num_cols'', ''num_int'',
      ''num_rows'', ''num_nz'', ''cutoff'', ''max_mip_gap_abs'', ''max_mip_gap'',
      ''max_seconds'', ''max_nodes'', ''max_solutions'', ''status'']"

text \<open>
  \<open>getattr_of attrs a val\<close> is the attribute \<open>a\<close> of an object that defines the names
  \<open>attrs\<close>; \<open>val\<close> is what the attribute holds when it exists.
\<close>

definition getattr_of :: "string list \<Rightarrow> string \<Rightarrow> 'a \<Rightarrow> py_error + 'a" where
  "getattr_of attrs a val = (if a \<in> set attrs then Inr val else Inl (AttributeError a))"

text \<open>
  The first loop of \<^verbatim>\<open>copy\<close>. The keyword arguments of \<^verbatim>\<open>copy.add_var\<close> are evaluated
  from left to right: \<^verbatim>\<open>v.name\<close>, \<^verbatim>\<open>v.lb\<close>, \<^verbatim>\<open>v.ub\<close>, \<^verbatim>\<open>v.obj\<close> and then
  \<^verbatim>\<open>v.var_type\<close>. \<open>fresh\<close> gives the identity of the next handle from the number
  of handles the copy holds.
\<close>

fun copy_vars :: "(nat \<Rightarrow> nat) \<Rightarrow> model \<Rightarrow> model \<Rightarrow> var list \<Rightarrow> py_error + model" where
  "copy_vars fresh self cp [] = Inr cp"
| "copy_vars fresh self cp (v # vs) =
     (let nm = name v;
          lb = sv_lb (solver self) (idx v);
          ub = sv_ub (solver self) (idx v);
          ob = sv_obj (solver self) (idx v)
      in case getattr_of Var_attributes ''var_type'' (sv_type (solver self) (idx v)) of
           Inl e \<Rightarrow> Inl e
         | Inr var_type \<Rightarrow>
             copy_vars fresh self
               (snd (Model_add_var cp (fresh (length (vars cp))) nm lb ub ob var_type)) vs)"

text \<open>
  The second loop: \<^verbatim>\<open>c.expr\<close> is fetched from the backend of the original, where it
  is the body of a constraint, and the backend of the copy stores it.
\<close>

fun copy_constrs :: "model \<Rightarrow> model \<Rightarrow> constr list \<Rightarrow> py_error + model" where
  "copy_constrs self cp [] = Inr cp"
| "copy_constrs self cp (c # cs) =
     (let e = sv_row_expr (solver self) (constr_idx c)
      in case Model_add_constr store_add_constr cp (ArgExpr e) (constr_name c) of
           Inl err \<Rightarrow> Inl err
         | Inr (h, cp') \<Rightarrow> copy_constrs self cp' cs)"

text \<open>
  \<^verbatim>\<open>Model.copy\<close>. \<^verbatim>\<open>self.sense\<close> reads the objective sense of the backend; the last
  statement calls \<^verbatim>\<open>self.get_objective_const()\<close> and assigns the result through the
  setter of \<^verbatim>\<open>objective_const\<close>.
\<close>

definition Model_copy ::
  "(string \<rightharpoonup> string) \<Rightarrow> bool \<Rightarrow> (nat \<Rightarrow> nat) \<Rightarrow> model \<Rightarrow> string option \<Rightarrow> py_error + model" where
  "Model_copy environ has_gurobi fresh self solver_name_arg =
     (let sn = (case solver_name_arg of
                  None \<Rightarrow> solver_name self
                | Some s \<Rightarrow> if s = [] then solver_name self else s);
          cp = Model_init environ has_gurobi (model_name self)
                 (sv_objective_sense (solver self)) sn
      in case copy_vars fresh self cp (vars self) of
           Inl e \<Rightarrow> Inl e
         | Inr cp \<Rightarrow>
             (case copy_constrs self cp (constrs self) of
                Inl e \<Rightarrow> Inl e
              | Inr cp \<Rightarrow>
                  (case getattr_of Model_attributes ''get_objective_const''
                          (sv_objective_const (solver self)) of
                     Inl e \<Rightarrow> Inl e
                   | Inr c \<Rightarrow> Inr (cp\<lparr>solver := (solver cp)\<lparr>sv_objective_const := c\<rparr>\<rparr>))))"

section \<open>Well-formed expressions\<close>

text \<open>
  A Python dictionary never holds two keys with the same hash that compare equal. For
  the item lists of the embedding this is the invariant \<open>wf_items\<close>: the indices of the
  keys are distinct. \<open>remove_key\<close> and \<open>replace_key\<close> describe the items after a deletion
  and after an assignment to a stored key.
\<close>

definition wf_items :: "(var \<times> real) list \<Rightarrow> bool" where
  "wf_items d = distinct (map (\<lambda>item. idx (fst item)) d)"

definition wf_expr :: "linexpr \<Rightarrow> bool" where
  "wf_expr e = wf_items (expr e)"

definition remove_key :: "var \<Rightarrow> (var \<times> real) list \<Rightarrow> (var \<times> real) list" where
  "remove_key v d = filter (\<lambda>(k, c). k \<noteq> v) d"

definition replace_key :: "var \<Rightarrow> real \<Rightarrow> (var \<times> real) list \<Rightarrow> (var \<times> real) list" where
  "replace_key v y d = map (\<lambda>(k, c). if k = v then (k, y) else (k, c)) d"

text \<open>A number within \<open>EPS\<close> of zero, and item lists that store no such coefficient.\<close>

definition near_zero :: "real \<Rightarrow> bool" where
  "near_zero x = (- EPS \<le> x \<and> x \<le> EPS)"

definition no_small :: "(var \<times> real) list \<Rightarrow> bool" where
  "no_small d = list_all (\<lambda>(k, c). \<not> near_zero c) d"

text \<open>
  The bucket of a hash code, and the invariant of a pool: every recorded position is a
  position of the list of cuts, and every stored cut is well formed.
\<close>

definition bucket :: "cutpool \<Rightarrow> int \<Rightarrow> nat list" where
  "bucket pool h = (case pool_pos pool h of None \<Rightarrow> [] | Some l \<Rightarrow> l)"

definition pool_inv :: "cutpool \<Rightarrow> bool" where
  "pool_inv pool =
     ((\<forall>h. list_all (\<lambda>p. p < length (pool_cuts pool)) (bucket pool h))
      \<and> list_all wf_expr (pool_cuts pool))"

text \<open>
  The equality of two expressions in the words of the specification (section 3): equal
  constant, equal sense, equal term count, and the coefficients of every shared variable
  within 1e-12. It is what \<^verbatim>\<open>equals\<close> is compared with.
\<close>

definition equality_contract :: "linexpr \<Rightarrow> linexpr \<Rightarrow> bool" where
  "equality_contract a b =
     (const a = const b \<and> sense a = sense b \<and> length (expr a) = length (expr b)
      \<and> list_all (\<lambda>(v, c).
           list_all (\<lambda>(w, d). if idx v = idx w then \<bar>c - d\<bar> \<le> 1 / 10 ^ 12 else True)
             (expr b))
         (expr a))"

section \<open>Properties of the dictionary operations\<close>

lemma Var_eq_truth_diverges:
  "self \<noteq> other \<Longrightarrow> idx self = idx other \<Longrightarrow> Var_eq_truth ar n self other = Inl RecursionError"
proof (induction n)
  case 0
  then show ?case by simp
next
  case (Suc n)
  then show ?case
    by (simp add: LinExpr_init_with_def add_var_with_def dict_contains_def dict_set_def
        key_match_def Var_hash_def)
qed

lemma key_match_Var:
  "key_match (Var_eq_truth ar n) k key =
     (if k = key then Inr True else if idx k \<noteq> idx key then Inr False else Inl RecursionError)"
  by (simp add: key_match_def Var_hash_def Var_eq_truth_diverges)

lemma remove_key_absent: "idx v \<notin> idx ` fst ` set d \<Longrightarrow> remove_key v d = d"
  by (induction d) (auto simp: remove_key_def)

lemma replace_key_absent: "idx v \<notin> idx ` fst ` set d \<Longrightarrow> replace_key v y d = d"
  by (induction d) (auto simp: replace_key_def)

lemma dict_find_stored:
  "wf_items d \<Longrightarrow> (v, c) \<in> set d \<Longrightarrow>
     \<exists>i. dict_find (Var_eq_truth ar n) d v = Inr (Some i) \<and> i < length d \<and> d ! i = (v, c)
        \<and> take i d @ drop (Suc i) d = remove_key v d
        \<and> d[i := (v, y)] = replace_key v y d"
proof (induction d)
  case Nil
  then show ?case by simp
next
  case (Cons a d)
  obtain k x where a: "a = (k, x)" by (cases a)
  show ?case
  proof (cases "k = v")
    case True
    with Cons.prems a have nin: "idx v \<notin> idx ` fst ` set d"
      by (auto simp: wf_items_def)
    with Cons.prems a True have "x = c"
      by (force simp: wf_items_def)
    with a True nin show ?thesis
      by (simp add: key_match_Var remove_key_absent replace_key_absent)
         (simp add: remove_key_def replace_key_def remove_key_absent[unfolded remove_key_def]
            replace_key_absent[unfolded replace_key_def])
  next
    case False
    with Cons.prems a have mem: "(v, c) \<in> set d" and wf: "wf_items d"
      by (auto simp: wf_items_def)
    from Cons.prems a mem have ne: "idx k \<noteq> idx v"
      by (force simp: wf_items_def)
    from Cons.IH[OF wf mem] obtain i where
      "dict_find (Var_eq_truth ar n) d v = Inr (Some i)" "i < length d" "d ! i = (v, c)"
      "take i d @ drop (Suc i) d = remove_key v d" "d[i := (v, y)] = replace_key v y d"
      by blast
    with a False ne show ?thesis
      by (simp add: key_match_Var remove_key_def replace_key_def)
  qed
qed

lemma dict_find_absent:
  "idx v \<notin> idx ` fst ` set d \<Longrightarrow> dict_find (Var_eq_truth ar n) d v = Inr None"
  by (induction d) (auto simp: key_match_Var)

lemma dict_find_alias:
  "v \<notin> fst ` set d \<Longrightarrow> idx v \<in> idx ` fst ` set d \<Longrightarrow>
     dict_find (Var_eq_truth ar n) d v = Inl RecursionError"
  by (induction d) (force simp: key_match_Var)+

subsection \<open>\<^verbatim>\<open>add_var\<close> in any arithmetic\<close>

lemma add_var_in_stored_cancel:
  assumes "wf_expr self" "(v, c) \<in> set (expr self)" "near_zero (fadd ar c coeff)"
  shows "add_var_in ar self v coeff = Inr (self\<lparr>expr := remove_key v (expr self)\<rparr>)"
proof -
  from dict_find_stored[OF assms(1)[unfolded wf_expr_def] assms(2), of ar recursion_limit 0]
  obtain i where "dict_find (Var_eq_truth ar recursion_limit) (expr self) v = Inr (Some i)"
    "expr self ! i = (v, c)" "take i (expr self) @ drop (Suc i) (expr self) = remove_key v (expr self)"
    by blast
  with assms(3) show ?thesis
    by (simp add: add_var_in_def add_var_with_def dict_contains_def dict_get_def dict_del_def
        near_zero_def)
qed

lemma add_var_in_stored_update:
  assumes "wf_expr self" "(v, c) \<in> set (expr self)" "\<not> near_zero (fadd ar c coeff)"
  shows "add_var_in ar self v coeff
           = Inr (self\<lparr>expr := replace_key v (fadd ar c coeff) (expr self)\<rparr>)"
proof -
  from dict_find_stored[OF assms(1)[unfolded wf_expr_def] assms(2), of ar recursion_limit
      "fadd ar c coeff"]
  obtain i where "dict_find (Var_eq_truth ar recursion_limit) (expr self) v = Inr (Some i)"
    "expr self ! i = (v, c)"
    "(expr self)[i := (v, fadd ar c coeff)] = replace_key v (fadd ar c coeff) (expr self)"
    by blast
  with assms(3) show ?thesis
    by (auto simp add: add_var_in_def add_var_with_def dict_contains_def dict_get_def
        dict_set_def near_zero_def)
qed

lemma add_var_in_new:
  assumes "idx v \<notin> idx ` fst ` set (expr self)"
  shows "add_var_in ar self v coeff = Inr (self\<lparr>expr := expr self @ [(v, coeff)]\<rparr>)"
  using dict_find_absent[OF assms, of ar recursion_limit]
  by (simp add: add_var_in_def add_var_with_def dict_contains_def dict_set_def)

lemma add_var_in_alias:
  assumes "v \<notin> fst ` set (expr self)" "idx v \<in> idx ` fst ` set (expr self)"
  shows "add_var_in ar self v coeff = Inl RecursionError"
  using dict_find_alias[OF assms, of ar recursion_limit]
  by (simp add: add_var_in_def add_var_with_def dict_contains_def)

lemma wf_items_remove_key: "wf_items d \<Longrightarrow> wf_items (remove_key v d)"
  by (simp add: wf_items_def remove_key_def distinct_map_filter)

lemma idx_replace_key:
  "map (\<lambda>item. idx (fst item)) (replace_key v y d) = map (\<lambda>item. idx (fst item)) d"
  by (induction d) (auto simp: replace_key_def)

lemma wf_items_replace_key: "wf_items d \<Longrightarrow> wf_items (replace_key v y d)"
  by (simp add: wf_items_def idx_replace_key)

lemma wf_items_append_new:
  "wf_items d \<Longrightarrow> idx v \<notin> idx ` fst ` set d \<Longrightarrow> wf_items (d @ [(v, c)])"
  by (auto simp: wf_items_def)

lemma add_var_in_cases:
  assumes "wf_expr self"
  shows "add_var_in ar self v coeff = Inl RecursionError
       \<or> (\<exists>c. (v, c) \<in> set (expr self) \<and> near_zero (fadd ar c coeff)
              \<and> add_var_in ar self v coeff = Inr (self\<lparr>expr := remove_key v (expr self)\<rparr>))
       \<or> (\<exists>c. (v, c) \<in> set (expr self) \<and> \<not> near_zero (fadd ar c coeff)
              \<and> add_var_in ar self v coeff
                  = Inr (self\<lparr>expr := replace_key v (fadd ar c coeff) (expr self)\<rparr>))
       \<or> (idx v \<notin> idx ` fst ` set (expr self)
              \<and> add_var_in ar self v coeff = Inr (self\<lparr>expr := expr self @ [(v, coeff)]\<rparr>))"
proof (cases "v \<in> fst ` set (expr self)")
  case True
  then obtain c where c: "(v, c) \<in> set (expr self)" by auto
  show ?thesis
  proof (cases "near_zero (fadd ar c coeff)")
    case True
    with add_var_in_stored_cancel[OF assms c] c show ?thesis by blast
  next
    case False
    with add_var_in_stored_update[OF assms c] c show ?thesis by blast
  qed
next
  case False
  show ?thesis
  proof (cases "idx v \<in> idx ` fst ` set (expr self)")
    case True
    with add_var_in_alias[OF False] show ?thesis by blast
  next
    case False
    with add_var_in_new show ?thesis by blast
  qed
qed

lemma add_var_in_wf:
  assumes "wf_expr self" "add_var_in ar self v coeff = Inr r"
  shows "wf_expr r"
  using add_var_in_cases[OF assms(1), of ar v coeff] assms
  by (auto simp: wf_expr_def wf_items_remove_key wf_items_replace_key wf_items_append_new)

lemma no_small_remove_key: "no_small d \<Longrightarrow> no_small (remove_key v d)"
  by (simp add: no_small_def remove_key_def list_all_iff)

lemma no_small_replace_key: "no_small d \<Longrightarrow> \<not> near_zero y \<Longrightarrow> no_small (replace_key v y d)"
  by (induction d) (auto simp: no_small_def replace_key_def split: if_splits)

lemma no_small_append: "no_small d \<Longrightarrow> \<not> near_zero c \<Longrightarrow> no_small (d @ [(v, c)])"
  by (simp add: no_small_def)

lemma add_var_in_no_small:
  assumes "wf_expr self" "no_small (expr self)" "\<not> near_zero coeff"
    "add_var_in ar self v coeff = Inr r"
  shows "no_small (expr r)"
  using add_var_in_cases[OF assms(1), of ar v coeff] assms(2,3,4)
  by (auto simp: no_small_remove_key no_small_replace_key no_small_append)


lemma length_remove_key: "length (remove_key v d) \<le> length d"
  by (simp add: remove_key_def)

lemma length_replace_key: "length (replace_key v y d) = length d"
  by (simp add: replace_key_def)

subsection \<open>The constructor and the operators in any arithmetic\<close>

lemma init_loop_inv:
  "wf_expr self \<Longrightarrow> init_loop ar (Var_eq_truth ar recursion_limit) self vs cs = Inr r
     \<Longrightarrow> wf_expr r
         \<and> (no_small (expr self) \<longrightarrow> list_all (\<lambda>x. x = 0 \<or> \<not> near_zero x) cs
              \<longrightarrow> no_small (expr r))"
proof (induction ar "Var_eq_truth ar recursion_limit" self vs cs rule: init_loop.induct)
  case (1 ar self v vs c cs)
  show ?case
  proof (cases "c = 0")
    case True
    with 1 show ?thesis by simp
  next
    case False
    with "1.prems"(2) obtain s' where
      s': "add_var_in ar self v c = Inr s'"
      and rest: "init_loop ar (Var_eq_truth ar recursion_limit) s' vs cs = Inr r"
      by (auto simp: add_var_in_def split: sum.splits)
    from add_var_in_wf[OF "1.prems"(1) s'] have wf': "wf_expr s'" .
    from "1.hyps"(2)[OF False s'[unfolded add_var_in_def] wf' rest]
    have IH: "wf_expr r \<and> (no_small (expr s') \<longrightarrow> list_all (\<lambda>x. x = 0 \<or> \<not> near_zero x) cs
              \<longrightarrow> no_small (expr r))" .
    show ?thesis
    proof (intro conjI impI)
      from IH show "wf_expr r" by simp
    next
      assume ns: "no_small (expr self)" and ok: "list_all (\<lambda>x. x = 0 \<or> \<not> near_zero x) (c # cs)"
      with False have "\<not> near_zero c" by simp
      from add_var_in_no_small[OF "1.prems"(1) ns this s'] have "no_small (expr s')" .
      with IH ok show "no_small (expr r)" by simp
    qed
  qed
qed simp_all

lemma LinExpr_init_in_inv:
  assumes "LinExpr_init_in ar vs cs c s = Inr r"
  shows "wf_expr r \<and> (list_all (\<lambda>x. x = 0 \<or> \<not> near_zero x) cs \<longrightarrow> no_small (expr r))"
proof (cases "vs = []")
  case True
  with assms show ?thesis
    by (auto simp: LinExpr_init_in_def LinExpr_init_with_def wf_expr_def wf_items_def no_small_def)
next
  case False
  let ?e = "\<lparr>const = c, expr = [], sense = s\<rparr>"
  have wf: "wf_expr ?e" by (simp add: wf_expr_def wf_items_def)
  from False assms have "init_loop ar (Var_eq_truth ar recursion_limit) ?e vs cs = Inr r"
    by (auto simp: LinExpr_init_in_def LinExpr_init_with_def Let_def split: if_splits)
  from init_loop_inv[OF wf this] show ?thesis
    by (simp add: no_small_def)
qed

lemma add_expr_loop_inv:
  "wf_expr self \<Longrightarrow> add_expr_loop ar self items k = Inr r
     \<Longrightarrow> wf_expr r
         \<and> (no_small (expr self) \<longrightarrow> list_all (\<lambda>(v, cv). \<not> near_zero (fmul ar cv k)) items
              \<longrightarrow> no_small (expr r))"
proof (induction ar self items k rule: add_expr_loop.induct)
  case (1 ar self coeff)
  then show ?case by simp
next
  case (2 ar self v coeff_var items coeff)
  from "2.prems"(2) obtain s' where
    s': "add_var_in ar self v (fmul ar coeff_var coeff) = Inr s'"
    and rest: "add_expr_loop ar s' items coeff = Inr r"
    by (auto split: sum.splits)
  from add_var_in_wf[OF "2.prems"(1) s'] have wf': "wf_expr s'" .
  from "2.IH"[OF s' wf' rest]
  have IH: "wf_expr r \<and> (no_small (expr s')
      \<longrightarrow> list_all (\<lambda>(v, cv). \<not> near_zero (fmul ar cv coeff)) items \<longrightarrow> no_small (expr r))" .
  show ?case
  proof (intro conjI impI)
    from IH show "wf_expr r" by simp
  next
    assume ns: "no_small (expr self)"
      and ok: "list_all (\<lambda>(v, cv). \<not> near_zero (fmul ar cv coeff)) ((v, coeff_var) # items)"
    then have "\<not> near_zero (fmul ar coeff_var coeff)" by simp
    from add_var_in_no_small[OF "2.prems"(1) ns this s'] have "no_small (expr s')" .
    with IH ok show "no_small (expr r)" by simp
  qed
qed

lemma add_expr_in_inv:
  assumes "wf_expr self" "add_expr_in ar self e k = Inr r"
  shows "wf_expr r
         \<and> (no_small (expr self) \<longrightarrow> list_all (\<lambda>(v, cv). \<not> near_zero (fmul ar cv k)) (expr e)
              \<longrightarrow> no_small (expr r))"
proof -
  let ?s = "self\<lparr>const := fadd ar (const self) (fmul ar (const e) k)\<rparr>"
  from assms(1) have wf: "wf_expr ?s" by (simp add: wf_expr_def)
  from assms(2) have "add_expr_loop ar ?s (expr e) k = Inr r" by (simp add: add_expr_in_def)
  from add_expr_loop_inv[OF wf this] show ?thesis by simp
qed

lemma wf_expr_copy: "wf_expr (LinExpr_copy self) = wf_expr self"
  by (simp add: wf_expr_def LinExpr_copy_def)

lemma expr_copy: "expr (LinExpr_copy self) = expr self"
  by (simp add: LinExpr_copy_def)

lemma not_near_zero_one: "\<not> near_zero 1" "\<not> near_zero (- 1)"
  by (simp_all add: near_zero_def EPS_def)

lemma LinExpr_add_in_inv:
  assumes "wf_expr self" "LinExpr_add_in ar self other = Inr r"
  shows "wf_expr r
         \<and> (no_small (expr self)
              \<longrightarrow> (case other of
                     OExpr e \<Rightarrow> list_all (\<lambda>(v, cv). \<not> near_zero (fmul ar cv 1)) (expr e)
                   | _ \<Rightarrow> True)
              \<longrightarrow> no_small (expr r))"
proof (cases other)
  case (OVar v)
  with assms(2) have a: "add_var_in ar (LinExpr_copy self) v 1 = Inr r"
    by (simp add: LinExpr_add_in_def)
  from assms(1) have wf: "wf_expr (LinExpr_copy self)" by (simp add: wf_expr_copy)
  from add_var_in_wf[OF wf a] add_var_in_no_small[OF wf _ not_near_zero_one(1) a] OVar
  show ?thesis by (simp add: expr_copy)
next
  case (OExpr e)
  with assms(2) have a: "add_expr_in ar (LinExpr_copy self) e 1 = Inr r"
    by (simp add: LinExpr_add_in_def)
  from assms(1) have wf: "wf_expr (LinExpr_copy self)" by (simp add: wf_expr_copy)
  from add_expr_in_inv[OF wf a] OExpr show ?thesis by (simp add: expr_copy)
next
  case (ONum c)
  with assms show ?thesis
    by (auto simp: LinExpr_add_in_def add_const_in_def LinExpr_copy_def wf_expr_def)
next
  case OOther
  with assms show ?thesis
    by (auto simp: LinExpr_add_in_def LinExpr_copy_def wf_expr_def)
qed

lemma LinExpr_sub_in_inv:
  assumes "wf_expr self" "LinExpr_sub_in ar self other = Inr r"
  shows "wf_expr r
         \<and> (no_small (expr self)
              \<longrightarrow> (case other of
                     OExpr e \<Rightarrow> list_all (\<lambda>(v, cv). \<not> near_zero (fmul ar cv (- 1))) (expr e)
                   | _ \<Rightarrow> True)
              \<longrightarrow> no_small (expr r))"
proof (cases other)
  case (OVar v)
  with assms(2) have a: "add_var_in ar (LinExpr_copy self) v (- 1) = Inr r"
    by (simp add: LinExpr_sub_in_def)
  from assms(1) have wf: "wf_expr (LinExpr_copy self)" by (simp add: wf_expr_copy)
  from add_var_in_wf[OF wf a] add_var_in_no_small[OF wf _ not_near_zero_one(2) a] OVar
  show ?thesis by (simp add: expr_copy)
next
  case (OExpr e)
  with assms(2) have a: "add_expr_in ar (LinExpr_copy self) e (- 1) = Inr r"
    by (simp add: LinExpr_sub_in_def)
  from assms(1) have wf: "wf_expr (LinExpr_copy self)" by (simp add: wf_expr_copy)
  from add_expr_in_inv[OF wf a] OExpr show ?thesis by (simp add: expr_copy)
next
  case (ONum c)
  with assms show ?thesis
    by (auto simp: LinExpr_sub_in_def add_const_in_def LinExpr_copy_def wf_expr_def)
next
  case OOther
  with assms show ?thesis
    by (auto simp: LinExpr_sub_in_def LinExpr_copy_def wf_expr_def)
qed

subsection \<open>The exact arithmetic\<close>

lemma near_zero_exact: "near_zero (fadd exact c coeff) = (- EPS \<le> c + coeff \<and> c + coeff \<le> EPS)"
  by (simp add: near_zero_def exact_def)

lemma add_var_stored_cancel:
  assumes "wf_expr self" "(v, c) \<in> set (expr self)" "- EPS \<le> c + coeff" "c + coeff \<le> EPS"
  shows "add_var self v coeff = Inr (self\<lparr>expr := remove_key v (expr self)\<rparr>)"
  using add_var_in_stored_cancel[of self v c exact coeff] assms
  by (simp add: add_var_def near_zero_exact)

lemma add_var_stored_update:
  assumes "wf_expr self" "(v, c) \<in> set (expr self)" "\<not> (- EPS \<le> c + coeff \<and> c + coeff \<le> EPS)"
  shows "add_var self v coeff = Inr (self\<lparr>expr := replace_key v (c + coeff) (expr self)\<rparr>)"
  using add_var_in_stored_update[of self v c exact coeff] assms
  by (simp add: add_var_def near_zero_exact) (simp add: exact_def)

lemma add_var_new:
  assumes "idx v \<notin> idx ` fst ` set (expr self)"
  shows "add_var self v coeff = Inr (self\<lparr>expr := expr self @ [(v, coeff)]\<rparr>)"
  using add_var_in_new[OF assms] by (simp add: add_var_def)

lemma add_var_alias:
  assumes "v \<notin> fst ` set (expr self)" "idx v \<in> idx ` fst ` set (expr self)"
  shows "add_var self v coeff = Inl RecursionError"
  using add_var_in_alias[OF assms] by (simp add: add_var_def)

lemma add_var_wf: "wf_expr self \<Longrightarrow> add_var self v coeff = Inr r \<Longrightarrow> wf_expr r"
  using add_var_in_wf[of self exact v coeff r] by (simp add: add_var_def)

lemma LinExpr_init_wf: "LinExpr_init vs cs c s = Inr r \<Longrightarrow> wf_expr r"
  using LinExpr_init_in_inv[of exact vs cs c s r] by (simp add: LinExpr_init_def)

lemma add_expr_wf: "wf_expr self \<Longrightarrow> add_expr self e k = Inr r \<Longrightarrow> wf_expr r"
  using add_expr_in_inv[of self exact e k r] by (simp add: add_expr_def)

lemma LinExpr_add_wf: "wf_expr self \<Longrightarrow> LinExpr_add self other = Inr r \<Longrightarrow> wf_expr r"
  using LinExpr_add_in_inv[of self exact other r] by (simp add: LinExpr_add_def)

lemma LinExpr_sub_wf: "wf_expr self \<Longrightarrow> LinExpr_sub self other = Inr r \<Longrightarrow> wf_expr r"
  using LinExpr_sub_in_inv[of self exact other r] by (simp add: LinExpr_sub_def)

subsection \<open>\<^verbatim>\<open>equals\<close> and the scan of a bucket\<close>

lemma equals_loop_wf:
  "wf_expr self \<Longrightarrow> set items \<subseteq> set (expr self) \<Longrightarrow> equals_loop self other items = Inr True"
proof (induction items)
  case Nil
  then show ?case by simp
next
  case (Cons a items)
  obtain v c where a: "a = (v, c)" by (cases a)
  with Cons.prems have mem: "(v, c) \<in> set (expr self)" by simp
  from dict_find_stored[OF Cons.prems(1)[unfolded wf_expr_def] mem, of exact recursion_limit 0]
  obtain i where "dict_find (Var_eq_truth exact recursion_limit) (expr self) v = Inr (Some i)"
    "expr self ! i = (v, c)" by blast
  with Cons a show ?case
    by (simp add: dict_contains_def dict_get_def)
qed

lemma equals_wf:
  "wf_expr self \<Longrightarrow>
     equals self other =
       Inr (const self = const other \<and> sense self = sense other
            \<and> length (expr self) = length (expr other))"
  by (simp add: equals_def equals_loop_wf)

lemma find_repeated_inv:
  "list_all (\<lambda>p. p < length cs) l \<Longrightarrow> list_all wf_expr cs \<Longrightarrow>
     find_repeated cs c l = Inr (\<exists>p \<in> set l. equals (cs ! p) c = Inr True)"
proof (induction l)
  case Nil
  then show ?case by simp
next
  case (Cons p l)
  then have wf: "wf_expr (cs ! p)" and p: "p < length cs" by (simp_all add: list_all_iff)
  from Cons have IH: "find_repeated cs c l = Inr (\<exists>p \<in> set l. equals (cs ! p) c = Inr True)"
    by simp
  show ?case
  proof (cases "equals (cs ! p) c = Inr True")
    case True
    with p show ?thesis by simp
  next
    case False
    with wf have "equals (cs ! p) c = Inr False" by (simp add: equals_wf)
    with p IH show ?thesis by simp
  qed
qed

lemma pool_inv_init: "pool_inv CutPool_init"
  by (simp add: pool_inv_def CutPool_init_def bucket_def)

lemma CutPool_add_repeated:
  assumes "pool_inv self" "\<exists>p \<in> set (bucket self (LinExpr_hash H c)). equals (pool_cuts self ! p) c = Inr True"
  shows "CutPool_add H self c = Inr (False, self)"
proof -
  from assms(2) obtain l where l: "pool_pos self (LinExpr_hash H c) = Some l"
    by (cases "pool_pos self (LinExpr_hash H c)") (auto simp: bucket_def)
  from assms(1) have "list_all (\<lambda>p. p < length (pool_cuts self)) (bucket self (LinExpr_hash H c))"
    "list_all wf_expr (pool_cuts self)"
    by (simp_all add: pool_inv_def)
  with l assms(2) have "find_repeated (pool_cuts self) c l = Inr True"
    by (simp add: find_repeated_inv bucket_def)
  with l show ?thesis
    by (simp add: CutPool_add_def defaultdict_get_def)
qed

lemma CutPool_add_new:
  assumes "pool_inv self" "\<not> (\<exists>p \<in> set (bucket self (LinExpr_hash H c)). equals (pool_cuts self ! p) c = Inr True)"
  shows "CutPool_add H self c =
           Inr (True, \<lparr>pool_cuts = pool_cuts self @ [c],
                      pool_pos = (pool_pos self)(LinExpr_hash H c \<mapsto>
                         bucket self (LinExpr_hash H c) @ [length (pool_cuts self)])\<rparr>)"
proof -
  from assms(1) have inv: "list_all (\<lambda>p. p < length (pool_cuts self)) (bucket self (LinExpr_hash H c))"
    "list_all wf_expr (pool_cuts self)"
    by (simp_all add: pool_inv_def)
  show ?thesis
  proof (cases "pool_pos self (LinExpr_hash H c)")
    case None
    then show ?thesis
      by (simp add: CutPool_add_def defaultdict_get_def bucket_def)
  next
    case (Some l)
    with inv assms(2) have "find_repeated (pool_cuts self) c l = Inr False"
      by (simp add: find_repeated_inv bucket_def)
    with Some show ?thesis
      by (simp add: CutPool_add_def defaultdict_get_def bucket_def)
  qed
qed

lemma pool_inv_add:
  assumes "pool_inv self" "wf_expr c" "CutPool_add H self c = Inr (b, pool')"
  shows "pool_inv pool'"
proof (cases "\<exists>p \<in> set (bucket self (LinExpr_hash H c)). equals (pool_cuts self ! p) c = Inr True")
  case True
  from CutPool_add_repeated[OF assms(1) True] assms show ?thesis by simp
next
  case False
  from assms(1) have "\<And>h. list_all (\<lambda>p. p < Suc (length (pool_cuts self))) (bucket self h)"
    by (auto simp: pool_inv_def list_all_iff less_Suc_eq)
  with CutPool_add_new[OF assms(1) False] assms show ?thesis
    by (auto simp: pool_inv_def bucket_def)
qed

section \<open>Scalar multiplication\<close>

lemma LinExpr_mul_result_sense:
  "LinExpr_mul self (ONum k) = Inr (self', result) \<Longrightarrow> sense result = sense self"
  by (auto simp: LinExpr_mul_def LinExpr_copy_def Let_def)

text \<open>
  Claim C1. Multiplying the constraint \<open>x \<le> 3\<close> (stored as \<open>x - 3\<close> with sense \<open><\<close>)
  by \<open>-1\<close>: the claim asks for a result with the flipped sense \<open>>\<close> and an unchanged
  operand. The code returns a result that keeps the sense \<open><\<close> (coefficients and
  constant are scaled), and it is the operand whose sense becomes \<open>>\<close>.
\<close>

theorem LinExpr_mul_negative_flips_operand:
  "LinExpr_mul \<lparr>const = - 3, expr = [(\<lparr>oid = 0, idx = 0, name = ''x''\<rparr>, 1)], sense = ''<''\<rparr>
       (ONum (- 1))
     = Inr (\<lparr>const = - 3, expr = [(\<lparr>oid = 0, idx = 0, name = ''x''\<rparr>, 1)], sense = ''>''\<rparr>,
            \<lparr>const = 3, expr = [(\<lparr>oid = 0, idx = 0, name = ''x''\<rparr>, - 1)], sense = ''<''\<rparr>)"
  by (simp add: LinExpr_mul_def LinExpr_copy_def LESS_OR_EQUAL_def GREATER_OR_EQUAL_def)

section \<open>The cut-aggressiveness setting\<close>

text \<open>
  Claim C2. A fresh model stores the setting 1. Setting it to 5, outside \<open>[0, 3]\<close>,
  prints the warning that the old setting is kept, and stores 5: the claim asks for the
  stored 1 to be retained.
\<close>

theorem Model_set_cuts_out_of_range_overwrites:
  "cuts (Model_init Map.empty False ''m'' MINIMIZE []) = 1
   \<and> Model_set_cuts (Model_init Map.empty False ''m'' MINIMIZE []) 5
       = ([''Warning: invalid value (1) for parameter cuts, keeping old setting.''],
          (Model_init Map.empty False ''m'' MINIMIZE [])\<lparr>cuts := 5\<rparr>)
   \<and> cuts (snd (Model_set_cuts (Model_init Map.empty False ''m'' MINIMIZE []) 5)) = 5"
  by (simp add: Model_set_cuts_def Model_init_def str_int_def Let_def)

section \<open>Solution queries\<close>

lemma Var_x_guarded:
  "status m \<in> {LOADED, INFEASIBLE, CUTOFF, UNBOUNDED, NO_SOLUTION_FOUND}
     \<Longrightarrow> \<exists>msg. Var_x m v = Inl (SolutionNotAvailable msg)
              \<and> Var_xi m v i = Inl (SolutionNotAvailable msg)"
  by (auto simp: Var_x_def Var_xi_def)

text \<open>
  Claim C3. A search that the backend reports as Error leaves the model in the status
  Error. The claim asks the query of a variable's value, or of its value in the \<open>i\<close>-th
  solution of the pool, to raise the solution-not-available error in that status, as the
  query of the reduced cost does. \<^verbatim>\<open>Var.x\<close> and \<^verbatim>\<open>Var.xi\<close> have no test for Error, nor
  for IntegerInfeasible: they hand the query to the backend and return whatever the
  backend answers, a value included.
\<close>

theorem Var_x_at_error_asks_backend:
  "status (snd (Model_optimize (m\<lparr>solver := (solver m)\<lparr>sv_outcome := ERROR\<rparr>\<rparr>))) = ERROR
   \<and> Var_x (snd (Model_optimize (m\<lparr>solver := (solver m)\<lparr>sv_outcome := ERROR\<rparr>\<rparr>))) v
       = sv_x (solver m) (idx v)
   \<and> Var_xi (snd (Model_optimize (m\<lparr>solver := (solver m)\<lparr>sv_outcome := ERROR\<rparr>\<rparr>))) v i
       = sv_xi (solver m) (idx v) i
   \<and> Var_rc (snd (Model_optimize (m\<lparr>solver := (solver m)\<lparr>sv_outcome := ERROR\<rparr>\<rparr>))) v
       = Inl (SolutionNotAvailable ''Solution not available.'')
   \<and> Var_x (snd (Model_optimize (m\<lparr>solver := (solver m)\<lparr>sv_outcome := INT_INFEASIBLE\<rparr>\<rparr>))) v
       = sv_x (solver m) (idx v)
   \<and> Var_xi (snd (Model_optimize (m\<lparr>solver := (solver m)\<lparr>sv_outcome := INT_INFEASIBLE\<rparr>\<rparr>))) v i
       = sv_xi (solver m) (idx v) i"
  by (simp add: Model_optimize_def Var_x_def Var_xi_def Var_rc_def)

section \<open>Equality of expressions\<close>

text \<open>
  Claim C4. The expressions \<open>x \<le> 0\<close> and \<open>2 x \<le> 0\<close> have the same constant, sense and
  number of terms, and the coefficients of the shared variable differ by 1: the claim
  asks for \<^verbatim>\<open>False\<close>, and \<^verbatim>\<open>equals\<close> returns \<^verbatim>\<open>True\<close>. By lemma \<open>equals_wf\<close> the
  result never depends on the coefficients of either expression.
\<close>

theorem equals_accepts_different_coefficients:
  "equals \<lparr>const = 0, expr = [(\<lparr>oid = 0, idx = 0, name = ''x''\<rparr>, 1)], sense = ''<''\<rparr>
          \<lparr>const = 0, expr = [(\<lparr>oid = 0, idx = 0, name = ''x''\<rparr>, 2)], sense = ''<''\<rparr>
     = Inr True"
  by (simp add: equals_def dict_contains_def dict_get_def key_match_def)

section \<open>Copying a model\<close>

lemma copy_constrs_returns: "\<exists>cp'. copy_constrs self cp cs = Inr cp'"
  by (induction cs arbitrary: cp)
     (auto simp: Model_add_constr_def store_add_constr_def Let_def split: prod.splits)

text \<open>
  Claim C6. \<^verbatim>\<open>Model.copy\<close> never returns a model. With at least one variable the first
  pass of the first loop reads \<^verbatim>\<open>v.var_type\<close>, which \<^verbatim>\<open>Var\<close> does not define (the
  property is \<^verbatim>\<open>type\<close>); with no variable the last statement calls
  \<^verbatim>\<open>self.get_objective_const\<close>, which \<^verbatim>\<open>Model\<close> does not define (the property is
  \<^verbatim>\<open>objective_const\<close>). Either way the call raises \<^verbatim>\<open>AttributeError\<close>.
\<close>

theorem Model_copy_raises:
  "Model_copy environ has_gurobi fresh self sn =
     Inl (AttributeError (if vars self = [] then ''get_objective_const'' else ''var_type''))"
proof (cases "vars self")
  case Nil
  let ?cp = "Model_init environ has_gurobi (model_name self) (sv_objective_sense (solver self))
     (case sn of None \<Rightarrow> solver_name self | Some s \<Rightarrow> if s = [] then solver_name self else s)"
  from copy_constrs_returns[of self ?cp "constrs self"]
  obtain cp' where "copy_constrs self ?cp (constrs self) = Inr cp'" by blast
  with Nil show ?thesis
    by (simp add: Model_copy_def getattr_of_def Model_attributes_def Let_def)
next
  case (Cons v vs)
  then show ?thesis
    by (simp add: Model_copy_def getattr_of_def Var_attributes_def Let_def)
qed

section \<open>Near-zero coefficients\<close>








lemma add_var_same_handle:
  assumes "wf_expr self" "v \<in> fst ` set (expr self)"
  shows "\<exists>r. add_var self v coeff = Inr r
           \<and> (expr r = remove_key v (expr self)
                \<or> (\<exists>c. (v, c) \<in> set (expr self) \<and> expr r = replace_key v (c + coeff) (expr self)))
           \<and> length (expr r) \<le> length (expr self)"
proof -
  from assms(2) obtain c where c: "(v, c) \<in> set (expr self)" by auto
  show ?thesis
  proof (cases "- EPS \<le> c + coeff \<and> c + coeff \<le> EPS")
    case True
    with add_var_stored_cancel[OF assms(1) c, of coeff] show ?thesis
      by (simp add: length_remove_key)
  next
    case False
    with add_var_stored_update[OF assms(1) c, of coeff] c show ?thesis
      by (auto simp: length_replace_key)
  qed
qed

section \<open>One term per variable index\<close>

text \<open>
  Claim C10, as the code has it. On a well-formed expression, \<^verbatim>\<open>add_var\<close> with a handle
  that is a key of the expression merges with or cancels against the term of that key
  and the number of terms does not grow. Every expression that \<^verbatim>\<open>add_var\<close>, the
  constructor, \<^verbatim>\<open>add_expr\<close>, \<^verbatim>\<open>+\<close> or \<^verbatim>\<open>-\<close> returns holds at most one term per
  variable index.
\<close>

theorem add_var_one_term_per_index:
  assumes "wf_expr self"
  shows "(v \<in> fst ` set (expr self) \<longrightarrow>
            (\<exists>r. add_var self v coeff = Inr r
               \<and> (expr r = remove_key v (expr self)
                    \<or> (\<exists>c. (v, c) \<in> set (expr self)
                          \<and> expr r = replace_key v (c + coeff) (expr self)))
               \<and> length (expr r) \<le> length (expr self)))
       \<and> (\<forall>r. add_var self v coeff = Inr r \<longrightarrow> wf_expr r)
       \<and> (\<forall>r. LinExpr_init vs cs c0 s = Inr r \<longrightarrow> wf_expr r)
       \<and> (\<forall>r. add_expr self e k = Inr r \<longrightarrow> wf_expr r)
       \<and> (\<forall>r. LinExpr_add self other = Inr r \<longrightarrow> wf_expr r)
       \<and> (\<forall>r. LinExpr_sub self other = Inr r \<longrightarrow> wf_expr r)"
  using assms add_var_same_handle[of self v coeff] add_var_wf[of self v coeff]
    LinExpr_init_wf[of vs cs c0 s] add_expr_wf[of self e k] LinExpr_add_wf[of self other]
    LinExpr_sub_wf[of self other]
  by blast

text \<open>
  Claim C10, witness: adding \<open>2 x\<close> to the expression \<open>x\<close> with the same handle gives the
  single term \<open>3 x\<close>.
\<close>

theorem add_var_one_term_per_index_witness:
  "wf_expr \<lparr>const = 0, expr = [(\<lparr>oid = 0, idx = 0, name = ''x''\<rparr>, 1)], sense = []\<rparr>
   \<and> \<lparr>oid = 0, idx = 0, name = ''x''\<rparr>
        \<in> fst ` set (expr \<lparr>const = 0, expr = [(\<lparr>oid = 0, idx = 0, name = ''x''\<rparr>, 1)], sense = []\<rparr>)
   \<and> add_var \<lparr>const = 0, expr = [(\<lparr>oid = 0, idx = 0, name = ''x''\<rparr>, 1)], sense = []\<rparr>
        \<lparr>oid = 0, idx = 0, name = ''x''\<rparr> 2
      = Inr \<lparr>const = 0, expr = [(\<lparr>oid = 0, idx = 0, name = ''x''\<rparr>, 3)], sense = []\<rparr>
   \<and> wf_expr \<lparr>const = 0, expr = [(\<lparr>oid = 0, idx = 0, name = ''x''\<rparr>, 3)], sense = []\<rparr>"
proof -
  let ?x = "\<lparr>oid = 0, idx = 0, name = ''x''\<rparr>"
  let ?e = "\<lparr>const = 0, expr = [(?x, 1)], sense = []\<rparr>"
  have wf: "wf_expr ?e" by (simp add: wf_expr_def wf_items_def)
  have ev: "add_var ?e ?x 2 = Inr \<lparr>const = 0, expr = [(?x, 3)], sense = []\<rparr>"
    by (simp add: add_var_def add_var_in_def add_var_with_def dict_contains_def dict_get_def
        dict_set_def key_match_def EPS_def exact_def)
  from add_var_one_term_per_index[OF wf, of ?x 2]
  have "\<forall>r. add_var ?e ?x 2 = Inr r \<longrightarrow> wf_expr r" by blast
  with ev have "wf_expr \<lparr>const = 0, expr = [(?x, 3)], sense = []\<rparr>" by simp
  with wf ev show ?thesis by simp
qed

text \<open>
  Claim C10 as stated fails for a distinct handle object with the index of a stored
  key: the lookup calls \<^verbatim>\<open>Var.__eq__\<close>, which builds a \<^verbatim>\<open>LinExpr\<close> from both handles
  and thereby repeats the lookup, and \<^verbatim>\<open>add_var\<close> raises \<^verbatim>\<open>RecursionError\<close> instead of
  merging.
\<close>

theorem add_var_distinct_handle_counterexample:
  "add_var \<lparr>const = 0, expr = [(\<lparr>oid = 0, idx = 0, name = ''x''\<rparr>, 1)], sense = []\<rparr>
       \<lparr>oid = 1, idx = 0, name = ''x''\<rparr> 1
     = Inl RecursionError"
  by (rule add_var_alias) simp_all

section \<open>Adding a constraint\<close>

text \<open>
  Claim C8, as the code has it, for every backend. \<^verbatim>\<open>add_constr\<close> with a boolean
  returns no handle and leaves the model, registry and backend included, as it is. With
  a \<^verbatim>\<open>LinExpr\<close> that the backend accepts and answers with a row index, it appends exactly
  one new \<^verbatim>\<open>Constr\<close> with that index to the ordered list, maps the name to it, and returns
  it.
\<close>

theorem Model_add_constr_bool_or_accepted:
  "Model_add_constr B self (ArgBool b) nm = Inr (None, self)
   \<and> (B (solver self) e nm = Inr (i, slv) \<longrightarrow>
        Model_add_constr B self (ArgExpr e) nm =
          Inr (Some \<lparr>constr_idx = i, constr_name = nm\<rparr>,
               self\<lparr>solver := slv,
                     constrs := constrs self @ [\<lparr>constr_idx = i, constr_name = nm\<rparr>],
                     constrs_by_name := (constrs_by_name self)
                        (nm \<mapsto> \<lparr>constr_idx = i, constr_name = nm\<rparr>)\<rparr>))"
  by (simp add: Model_add_constr_def Let_def)

text \<open>
  Claim C8, witness: the constraint \<open>x \<le> 3\<close> on a fresh model whose backend stores it as
  row 0.
\<close>

theorem Model_add_constr_bool_or_accepted_witness:
  "fst (solver_add_constr (solver (Model_init Map.empty False ''m'' MINIMIZE []))
          \<lparr>const = - 3, expr = [(\<lparr>oid = 0, idx = 0, name = ''x''\<rparr>, 1)], sense = ''<''\<rparr> ''c'') = 0
   \<and> (\<exists>m'. Model_add_constr store_add_constr (Model_init Map.empty False ''m'' MINIMIZE [])
          (ArgExpr \<lparr>const = - 3, expr = [(\<lparr>oid = 0, idx = 0, name = ''x''\<rparr>, 1)], sense = ''<''\<rparr>) ''c''
        = Inr (Some \<lparr>constr_idx = 0, constr_name = ''c''\<rparr>, m')
        \<and> constrs m' = [\<lparr>constr_idx = 0, constr_name = ''c''\<rparr>])"
proof -
  let ?m = "Model_init Map.empty False ''m'' MINIMIZE []"
  let ?e = "\<lparr>const = - 3, expr = [(\<lparr>oid = 0, idx = 0, name = ''x''\<rparr>, 1)], sense = ''<''\<rparr>"
  have i: "fst (solver_add_constr (solver ?m) ?e ''c'') = 0"
    by (simp add: solver_add_constr_def Model_init_def Solver_init_def Let_def)
  have c: "constrs ?m = []" by (simp add: Model_init_def Let_def)
  have b: "store_add_constr (solver ?m) ?e ''c''
             = Inr (0, snd (solver_add_constr (solver ?m) ?e ''c''))"
    using i by (simp add: store_add_constr_def prod_eq_iff)
  from Model_add_constr_bool_or_accepted[of store_add_constr ?m _ "''c''" ?e 0
      "snd (solver_add_constr (solver ?m) ?e ''c'')"] b c i
  show ?thesis by simp
qed

text \<open>
  Claim C8 as stated fails for an empty expression value: the empty \<^verbatim>\<open>LinExpr()\<close> is not
  a \<^verbatim>\<open>bool\<close>, so \<^verbatim>\<open>add_constr\<close> passes it to the backend and, whatever the backend does,
  does not return without a handle leaving the model as it was: it raises the error of
  the backend or returns a new handle.
\<close>

theorem Model_add_constr_empty_expr_counterexample:
  "\<forall>B. Model_add_constr B (Model_init Map.empty False ''m'' MINIMIZE [])
          (ArgExpr \<lparr>const = 0, expr = [], sense = []\<rparr>) ''c''
        \<noteq> Inr (None, Model_init Map.empty False ''m'' MINIMIZE [])"
  by (auto simp: Model_add_constr_def Let_def split: sum.splits prod.splits)

section \<open>The hash of an expression\<close>

text \<open>
  The hash is a function of the indices and the coefficients in insertion order, the
  constant and the sense.
\<close>

lemma LinExpr_hash_ordered_content:
  "map (\<lambda>item. idx (fst item)) (expr a) = map (\<lambda>item. idx (fst item)) (expr b)
   \<Longrightarrow> map snd (expr a) = map snd (expr b)
   \<Longrightarrow> const a = const b \<Longrightarrow> sense a = sense b
   \<Longrightarrow> LinExpr_hash H a = LinExpr_hash H b"
proof -
  assume i: "map (\<lambda>item. idx (fst item)) (expr a) = map (\<lambda>item. idx (fst item)) (expr b)"
    and c: "map snd (expr a) = map snd (expr b)"
    and k: "const a = const b" and s: "sense a = sense b"
  have "map (\<lambda>(v, c). HNum (real (idx v))) (expr a)
          = map (\<lambda>n. HNum (real n)) (map (\<lambda>item. idx (fst item)) (expr a))"
    by (simp add: case_prod_beta comp_def)
  also have "\<dots> = map (\<lambda>n. HNum (real n)) (map (\<lambda>item. idx (fst item)) (expr b))"
    by (simp only: i)
  also have "\<dots> = map (\<lambda>(v, c). HNum (real (idx v))) (expr b)"
    by (simp add: case_prod_beta comp_def)
  finally have 1: "map (\<lambda>(v, c). HNum (real (idx v))) (expr a)
          = map (\<lambda>(v, c). HNum (real (idx v))) (expr b)" .
  have "map (\<lambda>(v, c). HNum c) (expr a) = map HNum (map snd (expr a))"
    by (simp add: case_prod_beta comp_def)
  also have "\<dots> = map HNum (map snd (expr b))"
    by (simp only: c)
  also have "\<dots> = map (\<lambda>(v, c). HNum c) (expr b)"
    by (simp add: case_prod_beta comp_def)
  finally have 2: "map (\<lambda>(v, c). HNum c) (expr a) = map (\<lambda>(v, c). HNum c) (expr b)" .
  from 1 2 k s show ?thesis
    by (simp add: LinExpr_hash_def hashEl_def)
qed

lemma cpython_hash_order_values:
  "cpython_hash fh sh [HNum 0, HNum 1, HNum 1, HNum 2, HNum 0, HStr []] = - 2183075304196838832"
  "cpython_hash fh sh [HNum 1, HNum 0, HNum 2, HNum 1, HNum 0, HStr []] = - 6021675987053458776"
  by (simp_all add: cpython_hash_def item_hash_def long_hash_def tuplehash_def XXROTATE_def
      XXPRIME_1_def XXPRIME_2_def XXPRIME_5_def)

text \<open>
  Claim C7. \<^verbatim>\<open>LinExpr([x, y], [1, 2])\<close> and \<^verbatim>\<open>LinExpr([y, x], [2, 1])\<close> hold the same
  terms, constant and sense, inserted in different orders, and satisfy the equality
  contract in both directions. The claim asks for equal hashes. \<^verbatim>\<open>__hash__\<close> hashes the
  tuples \<open>(0, 1, 1, 2, 0, '')\<close> and \<open>(1, 0, 2, 1, 0, '')\<close>, whose hashes differ, and so a
  pool that holds the first expression accepts the second as a new cut.
\<close>

theorem LinExpr_hash_depends_on_insertion_order:
  "LinExpr_init [\<lparr>oid = 0, idx = 0, name = ''x''\<rparr>, \<lparr>oid = 1, idx = 1, name = ''y''\<rparr>] [1, 2] 0 [] = Inr \<lparr>const = 0, expr = [(\<lparr>oid = 0, idx = 0, name = ''x''\<rparr>, 1), (\<lparr>oid = 1, idx = 1, name = ''y''\<rparr>, 2)], sense = []\<rparr>
   \<and> LinExpr_init [\<lparr>oid = 1, idx = 1, name = ''y''\<rparr>, \<lparr>oid = 0, idx = 0, name = ''x''\<rparr>] [2, 1] 0 [] = Inr \<lparr>const = 0, expr = [(\<lparr>oid = 1, idx = 1, name = ''y''\<rparr>, 2), (\<lparr>oid = 0, idx = 0, name = ''x''\<rparr>, 1)], sense = []\<rparr>
   \<and> set [(\<lparr>oid = 0, idx = 0, name = ''x''\<rparr>, 1 :: real), (\<lparr>oid = 1, idx = 1, name = ''y''\<rparr>, 2)] = set [(\<lparr>oid = 1, idx = 1, name = ''y''\<rparr>, 2), (\<lparr>oid = 0, idx = 0, name = ''x''\<rparr>, 1)]
   \<and> equality_contract \<lparr>const = 0, expr = [(\<lparr>oid = 0, idx = 0, name = ''x''\<rparr>, 1), (\<lparr>oid = 1, idx = 1, name = ''y''\<rparr>, 2)], sense = []\<rparr>
        \<lparr>const = 0, expr = [(\<lparr>oid = 1, idx = 1, name = ''y''\<rparr>, 2), (\<lparr>oid = 0, idx = 0, name = ''x''\<rparr>, 1)], sense = []\<rparr>
   \<and> equality_contract \<lparr>const = 0, expr = [(\<lparr>oid = 1, idx = 1, name = ''y''\<rparr>, 2), (\<lparr>oid = 0, idx = 0, name = ''x''\<rparr>, 1)], sense = []\<rparr>
        \<lparr>const = 0, expr = [(\<lparr>oid = 0, idx = 0, name = ''x''\<rparr>, 1), (\<lparr>oid = 1, idx = 1, name = ''y''\<rparr>, 2)], sense = []\<rparr>
   \<and> LinExpr_hash (cpython_hash fh sh) \<lparr>const = 0, expr = [(\<lparr>oid = 0, idx = 0, name = ''x''\<rparr>, 1), (\<lparr>oid = 1, idx = 1, name = ''y''\<rparr>, 2)], sense = []\<rparr>
        = - 2183075304196838832
   \<and> LinExpr_hash (cpython_hash fh sh) \<lparr>const = 0, expr = [(\<lparr>oid = 1, idx = 1, name = ''y''\<rparr>, 2), (\<lparr>oid = 0, idx = 0, name = ''x''\<rparr>, 1)], sense = []\<rparr>
        = - 6021675987053458776
   \<and> CutPool_add (cpython_hash fh sh) CutPool_init
        \<lparr>const = 0, expr = [(\<lparr>oid = 0, idx = 0, name = ''x''\<rparr>, 1), (\<lparr>oid = 1, idx = 1, name = ''y''\<rparr>, 2)], sense = []\<rparr>
      = Inr (True, \<lparr>pool_cuts = [\<lparr>const = 0, expr = [(\<lparr>oid = 0, idx = 0, name = ''x''\<rparr>, 1), (\<lparr>oid = 1, idx = 1, name = ''y''\<rparr>, 2)], sense = []\<rparr>],
                    pool_pos = [- 2183075304196838832 \<mapsto> [0]]\<rparr>)
   \<and> CutPool_add (cpython_hash fh sh)
        \<lparr>pool_cuts = [\<lparr>const = 0, expr = [(\<lparr>oid = 0, idx = 0, name = ''x''\<rparr>, 1), (\<lparr>oid = 1, idx = 1, name = ''y''\<rparr>, 2)], sense = []\<rparr>],
         pool_pos = [- 2183075304196838832 \<mapsto> [0]]\<rparr>
        \<lparr>const = 0, expr = [(\<lparr>oid = 1, idx = 1, name = ''y''\<rparr>, 2), (\<lparr>oid = 0, idx = 0, name = ''x''\<rparr>, 1)], sense = []\<rparr>
      = Inr (True, \<lparr>pool_cuts = [\<lparr>const = 0, expr = [(\<lparr>oid = 0, idx = 0, name = ''x''\<rparr>, 1), (\<lparr>oid = 1, idx = 1, name = ''y''\<rparr>, 2)], sense = []\<rparr>,
                                 \<lparr>const = 0, expr = [(\<lparr>oid = 1, idx = 1, name = ''y''\<rparr>, 2), (\<lparr>oid = 0, idx = 0, name = ''x''\<rparr>, 1)], sense = []\<rparr>],
                    pool_pos = [- 2183075304196838832 \<mapsto> [0],
                                - 6021675987053458776 \<mapsto> [1]]\<rparr>)"
proof -
  let ?a = "\<lparr>const = 0, expr = [(\<lparr>oid = 0, idx = 0, name = ''x''\<rparr>, 1), (\<lparr>oid = 1, idx = 1, name = ''y''\<rparr>, 2)], sense = []\<rparr>"
  let ?b = "\<lparr>const = 0, expr = [(\<lparr>oid = 1, idx = 1, name = ''y''\<rparr>, 2), (\<lparr>oid = 0, idx = 0, name = ''x''\<rparr>, 1)], sense = []\<rparr>"
  let ?H = "cpython_hash fh sh"
  have init1: "LinExpr_init [\<lparr>oid = 0, idx = 0, name = ''x''\<rparr>, \<lparr>oid = 1, idx = 1, name = ''y''\<rparr>] [1, 2] 0 [] = Inr ?a"
    by (simp add: LinExpr_init_def LinExpr_init_in_def LinExpr_init_with_def add_var_with_def
        dict_contains_def dict_set_def key_match_def Var_hash_def)
  have init2: "LinExpr_init [\<lparr>oid = 1, idx = 1, name = ''y''\<rparr>, \<lparr>oid = 0, idx = 0, name = ''x''\<rparr>] [2, 1] 0 [] = Inr ?b"
    by (simp add: LinExpr_init_def LinExpr_init_in_def LinExpr_init_with_def add_var_with_def
        dict_contains_def dict_set_def key_match_def Var_hash_def)
  have sets: "set [(\<lparr>oid = 0, idx = 0, name = ''x''\<rparr>, 1 :: real), (\<lparr>oid = 1, idx = 1, name = ''y''\<rparr>, 2)] = set [(\<lparr>oid = 1, idx = 1, name = ''y''\<rparr>, 2), (\<lparr>oid = 0, idx = 0, name = ''x''\<rparr>, 1)]"
    by auto
  have ec1: "equality_contract ?a ?b" by (simp add: equality_contract_def)
  have ec2: "equality_contract ?b ?a" by (simp add: equality_contract_def)
  have ha: "LinExpr_hash ?H ?a = - 2183075304196838832"
    by (simp add: LinExpr_hash_def hashEl_def cpython_hash_order_values)
  have hb: "LinExpr_hash ?H ?b = - 6021675987053458776"
    by (simp add: LinExpr_hash_def hashEl_def cpython_hash_order_values)
  have first: "CutPool_add ?H CutPool_init ?a
      = Inr (True, \<lparr>pool_cuts = [?a], pool_pos = [- 2183075304196838832 \<mapsto> [0]]\<rparr>)"
    by (simp add: CutPool_add_def ha CutPool_init_def defaultdict_get_def del: One_nat_def)
  have second: "CutPool_add ?H \<lparr>pool_cuts = [?a], pool_pos = [- 2183075304196838832 \<mapsto> [0]]\<rparr> ?b
      = Inr (True, \<lparr>pool_cuts = [?a, ?b],
                    pool_pos = [- 2183075304196838832 \<mapsto> [0],
                                - 6021675987053458776 \<mapsto> [1]]\<rparr>)"
    by (simp add: CutPool_add_def hb defaultdict_get_def del: One_nat_def, simp)
  from init1 init2 sets ec1 ec2 ha hb first second show ?thesis by blast
qed

section \<open>Adding a cut to the pool\<close>

text \<open>
  With the test that \<^verbatim>\<open>equals\<close> computes, \<^verbatim>\<open>add\<close> rejects a cut when a stored cut of
  its bucket passes the test and appends it otherwise, and the same cut submitted twice
  to a fresh pool is accepted and then rejected.
\<close>

lemma CutPool_add_twice:
  assumes "wf_expr c"
  shows "CutPool_add H CutPool_init c
           = Inr (True, \<lparr>pool_cuts = [c], pool_pos = [LinExpr_hash H c \<mapsto> [0]]\<rparr>)
       \<and> CutPool_add H \<lparr>pool_cuts = [c], pool_pos = [LinExpr_hash H c \<mapsto> [0]]\<rparr> c
           = Inr (False, \<lparr>pool_cuts = [c], pool_pos = [LinExpr_hash H c \<mapsto> [0]]\<rparr>)"
proof -
  have first: "CutPool_add H CutPool_init c
           = Inr (True, \<lparr>pool_cuts = [c], pool_pos = [LinExpr_hash H c \<mapsto> [0]]\<rparr>)"
    using CutPool_add_new[OF pool_inv_init, of H c]
    by (simp add: bucket_def CutPool_init_def)
  let ?p1 = "\<lparr>pool_cuts = [c], pool_pos = [LinExpr_hash H c \<mapsto> [0]]\<rparr>"
  from pool_inv_add[OF pool_inv_init assms first] have inv: "pool_inv ?p1" .
  from assms have "equals c c = Inr True" by (simp add: equals_wf)
  then have "\<exists>p \<in> set (bucket ?p1 (LinExpr_hash H c)). equals (pool_cuts ?p1 ! p) c = Inr True"
    by (simp add: bucket_def)
  from CutPool_add_repeated[OF inv this] first show ?thesis by simp
qed

lemma CutPool_add_by_equals:
  assumes "pool_inv self"
  shows "((\<exists>p \<in> set (bucket self (LinExpr_hash H c)). equals (pool_cuts self ! p) c = Inr True)
            \<longrightarrow> CutPool_add H self c = Inr (False, self))
       \<and> (\<not> (\<exists>p \<in> set (bucket self (LinExpr_hash H c)). equals (pool_cuts self ! p) c = Inr True)
            \<longrightarrow> CutPool_add H self c =
                  Inr (True, \<lparr>pool_cuts = pool_cuts self @ [c],
                             pool_pos = (pool_pos self)(LinExpr_hash H c \<mapsto>
                               bucket self (LinExpr_hash H c) @ [length (pool_cuts self)])\<rparr>))
       \<and> (wf_expr c \<longrightarrow>
            (\<exists>p1. CutPool_add H CutPool_init c = Inr (True, p1)
                 \<and> length (pool_cuts p1) = length (pool_cuts CutPool_init) + 1
                 \<and> CutPool_add H p1 c = Inr (False, p1)
                 \<and> (\<forall>b p2. CutPool_add H self c = Inr (b, p2) \<longrightarrow> pool_inv p2)))"
proof (intro conjI impI)
  assume "\<exists>p \<in> set (bucket self (LinExpr_hash H c)). equals (pool_cuts self ! p) c = Inr True"
  with assms show "CutPool_add H self c = Inr (False, self)"
    by (rule CutPool_add_repeated)
next
  assume "\<not> (\<exists>p \<in> set (bucket self (LinExpr_hash H c)). equals (pool_cuts self ! p) c = Inr True)"
  with assms show "CutPool_add H self c =
                  Inr (True, \<lparr>pool_cuts = pool_cuts self @ [c],
                             pool_pos = (pool_pos self)(LinExpr_hash H c \<mapsto>
                               bucket self (LinExpr_hash H c) @ [length (pool_cuts self)])\<rparr>)"
    by (rule CutPool_add_new)
next
  assume wf: "wf_expr c"
  from CutPool_add_twice[OF wf, of H] pool_inv_add[OF assms wf, of H]
  show "\<exists>p1. CutPool_add H CutPool_init c = Inr (True, p1)
                 \<and> length (pool_cuts p1) = length (pool_cuts CutPool_init) + 1
                 \<and> CutPool_add H p1 c = Inr (False, p1)
                 \<and> (\<forall>b p2. CutPool_add H self c = Inr (b, p2) \<longrightarrow> pool_inv p2)"
    by (auto simp: CutPool_init_def)
qed

text \<open>
  Claim C5. The cuts \<open>-x \<le> 0\<close> and \<open>-2 x \<le> 0\<close> do not satisfy the equality contract.
  Their hashes are equal, because the interpreter hashes the coefficients \<open>-1\<close> and
  \<open>-2\<close> both to \<open>-2\<close>. After the first cut is added, no stored cut in the bucket of the
  second satisfies the contract with it, so the claim asks \<^verbatim>\<open>add\<close> to store it and
  return \<^verbatim>\<open>True\<close>; \<^verbatim>\<open>add\<close> returns \<^verbatim>\<open>False\<close> and the pool stays as it is.
\<close>

theorem CutPool_add_discards_new_cut:
  "\<not> equality_contract
       \<lparr>const = 0, expr = [(\<lparr>oid = 0, idx = 0, name = ''x''\<rparr>, - 1)], sense = ''<''\<rparr>
       \<lparr>const = 0, expr = [(\<lparr>oid = 0, idx = 0, name = ''x''\<rparr>, - 2)], sense = ''<''\<rparr>
   \<and> CutPool_add (cpython_hash fh sh) CutPool_init
       \<lparr>const = 0, expr = [(\<lparr>oid = 0, idx = 0, name = ''x''\<rparr>, - 1)], sense = ''<''\<rparr>
     = Inr (True,
         \<lparr>pool_cuts = [\<lparr>const = 0, expr = [(\<lparr>oid = 0, idx = 0, name = ''x''\<rparr>, - 1)], sense = ''<''\<rparr>],
          pool_pos = [tuplehash [0, - 2, 0, sh ''<''] \<mapsto> [0]]\<rparr>)
   \<and> CutPool_add (cpython_hash fh sh)
       \<lparr>pool_cuts = [\<lparr>const = 0, expr = [(\<lparr>oid = 0, idx = 0, name = ''x''\<rparr>, - 1)], sense = ''<''\<rparr>],
        pool_pos = [tuplehash [0, - 2, 0, sh ''<''] \<mapsto> [0]]\<rparr>
       \<lparr>const = 0, expr = [(\<lparr>oid = 0, idx = 0, name = ''x''\<rparr>, - 2)], sense = ''<''\<rparr>
     = Inr (False,
         \<lparr>pool_cuts = [\<lparr>const = 0, expr = [(\<lparr>oid = 0, idx = 0, name = ''x''\<rparr>, - 1)], sense = ''<''\<rparr>],
          pool_pos = [tuplehash [0, - 2, 0, sh ''<''] \<mapsto> [0]]\<rparr>)"
proof -
  let ?x = "\<lparr>oid = 0, idx = 0, name = ''x''\<rparr>"
  let ?a = "\<lparr>const = 0, expr = [(?x, - 1)], sense = ''<''\<rparr>"
  let ?b = "\<lparr>const = 0, expr = [(?x, - 2)], sense = ''<''\<rparr>"
  let ?H = "cpython_hash fh sh"
  have fl: "\<lfloor>- 1 :: real\<rfloor> = - 1"
    by (simp add: floor_eq_iff)
  have ha: "LinExpr_hash ?H ?a = tuplehash [0, - 2, 0, sh ''<'']"
    by (simp add: LinExpr_hash_def hashEl_def cpython_hash_def item_hash_def long_hash_def fl)
  have hb: "LinExpr_hash ?H ?b = tuplehash [0, - 2, 0, sh ''<'']"
    by (simp add: LinExpr_hash_def hashEl_def cpython_hash_def item_hash_def long_hash_def)
  have ne: "\<not> equality_contract ?a ?b"
    by (simp add: equality_contract_def)
  have eq: "equals ?a ?b = Inr True"
    by (simp add: equals_def dict_contains_def dict_get_def key_match_def)
  have first: "CutPool_add ?H CutPool_init ?a
     = Inr (True, \<lparr>pool_cuts = [?a], pool_pos = [tuplehash [0, - 2, 0, sh ''<''] \<mapsto> [0]]\<rparr>)"
    by (simp add: CutPool_add_def ha CutPool_init_def defaultdict_get_def)
  have second: "CutPool_add ?H \<lparr>pool_cuts = [?a], pool_pos = [tuplehash [0, - 2, 0, sh ''<''] \<mapsto> [0]]\<rparr> ?b
     = Inr (False, \<lparr>pool_cuts = [?a], pool_pos = [tuplehash [0, - 2, 0, sh ''<''] \<mapsto> [0]]\<rparr>)"
    by (simp add: CutPool_add_def hb defaultdict_get_def eq)
  from ne first second show ?thesis by blast
qed

end
